theory Spec2Isabelle
  imports Complex_Main "HOL-Library.Log_Nat"
begin

section \<open>The workflow dashboard client (web/static/js/workflow.js)\<close>

text \<open>
  The object \<open>workflowApp\<close> keeps the client state of the workflow page and renders it
  into the document. JavaScript values are embedded as follows: a string is a
  \<open>string\<close>; a property that may be \<open>undefined\<close> or \<open>null\<close> is an \<open>option\<close>
  (or a value of \<open>jsid\<close> where the source compares it with \<open>===\<close>);
  numbers are \<open>int\<close> or \<open>nat\<close> where the source counts, and IEEE doubles
  (\<open>double\<close>, with each operation rounded as the machine rounds it) where it divides or
  subtracts fractions; markup is kept as the tree of the elements the template literals
  build rather than as their text.
\<close>

subsection \<open>Executions and the action buttons: \<open>renderActions\<close>\<close>

text \<open>An identifier as \<open>===\<close> sees it: \<open>undefined\<close>, \<open>null\<close> or a string.\<close>

datatype jsid = Undefined | Null | IdStr string

text \<open>A phase execution as the pipeline view reads it.\<close>

record phase =
  ph_id :: string
  phase_id :: jsid
  phase_name :: string
  ph_status :: string
  order :: "int option"
  parallel_with :: jsid

record execution =
  ex_id :: string
  status :: string
  task_description :: "string option"
  phase_executions :: "phase list option"

text \<open>
  One \<open><button class=... onclick="workflowApp.HANDLER('ARG')">LABEL</button>\<close> of the
  actions bar.
\<close>

datatype control = Button (cls: string) (handler: string) (arg: string) (label: string)

definition renderActions :: "execution \<Rightarrow> control list" where
  "renderActions execution =
     (if status execution = ''pending''
      then [Button ''btn btn-primary'' ''runExecution'' (ex_id execution) ''Run''] else [])
     @ (if status execution = ''running''
      then [Button ''btn btn-danger'' ''cancelExecution'' (ex_id execution) ''Cancel''] else [])
     @ (if status execution = ''paused''
      then [Button ''btn btn-primary'' ''resumeExecution'' (ex_id execution) ''Resume'',
            Button ''btn btn-danger'' ''cancelExecution'' (ex_id execution) ''Cancel''] else [])
     @ (if status execution = ''awaiting_approval''
      then [Button ''btn btn-danger'' ''cancelExecution'' (ex_id execution) ''Cancel''] else [])
     @ (if status execution \<in> set [''completed'', ''failed'', ''cancelled'']
      then [Button ''btn'' ''showArtifacts'' (ex_id execution) ''View Artifacts''] else [])"

text \<open>The controls the claims speak of, for the execution \<open>e\<close>.\<close>

definition run_control :: "execution \<Rightarrow> control" where
  "run_control e = Button ''btn btn-primary'' ''runExecution'' (ex_id e) ''Run''"

definition resume_control :: "execution \<Rightarrow> control" where
  "resume_control e = Button ''btn btn-primary'' ''resumeExecution'' (ex_id e) ''Resume''"

definition cancel_control :: "execution \<Rightarrow> control" where
  "cancel_control e = Button ''btn btn-danger'' ''cancelExecution'' (ex_id e) ''Cancel''"

text \<open>A control of the bar calls the operation \<open>h\<close>.\<close>

definition invokes :: "string \<Rightarrow> control list \<Rightarrow> bool" where
  "invokes h cs = list_ex (\<lambda>c. handler c = h) cs"

definition terminal_status :: "string \<Rightarrow> bool" where
  "terminal_status s = (s \<in> set [''completed'', ''failed'', ''cancelled''])"

definition non_terminal_status :: "string \<Rightarrow> bool" where
  "non_terminal_status s = (s \<in> set [''pending'', ''running'', ''paused'', ''awaiting_approval''])"

subsection \<open>The pipeline view: \<open>groupPhases\<close>\<close>

text \<open>
  One \<open><div class="pipeline-phase">\<close> of the pipeline: a parallel group holding the card of
  the leading phase followed by the cards of the phases that run alongside it, or the card
  of one phase; the flag says whether a \<open>phase-connector\<close> follows.
  \<open>renderPhaseCard\<close> draws one card from one phase, so a card is kept as the phase it draws.
\<close>

datatype pipeline_item =
    ParallelGroup phase "phase list" bool
  | StandalonePhase phase bool

text \<open>\<open>a.order || 0\<close>: an absent order counts as 0.\<close>

definition order_or_0 :: "phase \<Rightarrow> int" where
  "order_or_0 p = (case order p of None \<Rightarrow> 0 | Some n \<Rightarrow> n)"

text \<open>
  The \<open>while\<close> loop of \<open>groupPhases\<close>; \<open>i\<close> grows in every round. The comparisons
  \<open>i < sorted.length - parallel.length - 1\<close> are on JavaScript numbers, which may go below
  zero, hence on \<open>int\<close>.
\<close>

function groupLoop :: "phase list \<Rightarrow> nat \<Rightarrow> pipeline_item list \<Rightarrow> pipeline_item list" where
  "groupLoop sorted_phases i html =
     (if i < length sorted_phases then
        (if length (filter (\<lambda>p. parallel_with p = phase_id (sorted_phases ! i)) sorted_phases) > 0
         then groupLoop sorted_phases
                (i + length (filter (\<lambda>p. parallel_with p = phase_id (sorted_phases ! i)) sorted_phases) + 1)
                (html @ [ParallelGroup (sorted_phases ! i)
                           (filter (\<lambda>p. parallel_with p = phase_id (sorted_phases ! i)) sorted_phases)
                           (int i < int (length sorted_phases)
                                    - int (length (filter (\<lambda>p. parallel_with p = phase_id (sorted_phases ! i))
                                                     sorted_phases)) - 1)])
         else if \<not> list_ex (\<lambda>p. parallel_with p = phase_id (sorted_phases ! i)) sorted_phases
         then groupLoop sorted_phases (i + 1)
                (html @ [StandalonePhase (sorted_phases ! i) (int i < int (length sorted_phases) - 1)])
         else groupLoop sorted_phases (i + 1) html)
      else html)"
  by pat_completeness auto
termination
  by (relation "measure (\<lambda>(sorted_phases, i, html). length sorted_phases - i)") auto

text \<open>
  \<open>[...phases].sort((a, b) => (a.order || 0) - (b.order || 0))\<close> is a stable sort by the
  order, as \<open>sort_key\<close> is.
\<close>

definition groupPhases :: "phase list \<Rightarrow> pipeline_item list" where
  "groupPhases phases = groupLoop (sort_key order_or_0 phases) 0 []"

text \<open>The cards one item draws, and the cards of the whole pipeline, in document order.\<close>

fun cards_of :: "pipeline_item \<Rightarrow> phase list" where
  "cards_of (ParallelGroup p ps c) = p # ps"
| "cards_of (StandalonePhase p c) = [p]"

definition rendered_cards :: "pipeline_item list \<Rightarrow> phase list" where
  "rendered_cards html = concat (map cards_of html)"

subsection \<open>Numbers\<close>

text \<open>
  A JavaScript number is an IEEE 754 double: a finite value, kept as the rational it
  denotes, an infinity, or NaN. The two zeros are kept as one: the code modelled here
  divides by 1000, by 60 and by a limit above 0 only, and a zero prints as \<open>0\<close> whatever
  its sign.
\<close>

datatype double = Fin rat | PosInf | NegInf | NaN

definition pow2 :: "int \<Rightarrow> rat" where
  "pow2 k = (if k \<ge> 0 then 2 ^ nat k else 1 / 2 ^ nat (- k))"

text \<open>The exponent of a positive number: \<open>pow2 (ilog2 x) \<le> x < pow2 (ilog2 x + 1)\<close>.\<close>

definition ilog2 :: "rat \<Rightarrow> int" where
  "ilog2 x = (if x \<ge> 1 then bitlen \<lfloor>x\<rfloor> - 1 else - bitlen (\<lceil>1 / x\<rceil> - 1))"

definition round_half_even :: "rat \<Rightarrow> int" where
  "round_half_even x =
     (if x - of_int \<lfloor>x\<rfloor> < 1 / 2 then \<lfloor>x\<rfloor>
      else if x - of_int \<lfloor>x\<rfloor> > 1 / 2 then \<lfloor>x\<rfloor> + 1
      else if even \<lfloor>x\<rfloor> then \<lfloor>x\<rfloor> else \<lfloor>x\<rfloor> + 1)"

text \<open>
  Rounding to the nearest double, ties to the even significand. A positive number of
  exponent \<open>e\<close> is rounded to a multiple of the spacing \<open>pow2 (e - 52)\<close> of the doubles
  of that exponent (53 bits of significand; the subnormals share the exponent -1022).
  It overflows to an infinity when the rounded number no longer fits the largest exponent,
  1023: that is, when it reaches \<open>2 ^ 1024\<close> (lemma \<open>overflows_iff\<close>).
\<close>

definition significand :: "rat \<Rightarrow> int" where
  "significand a = round_half_even (a / pow2 (max (ilog2 a) (- 1022) - 52))"

definition round_magnitude :: "rat \<Rightarrow> rat" where
  "round_magnitude a = of_int (significand a) * pow2 (max (ilog2 a) (- 1022) - 52)"

definition overflows :: "rat \<Rightarrow> bool" where
  "overflows a = (ilog2 a > 1023 \<or> (ilog2 a = 1023 \<and> significand a \<ge> 2 ^ 53))"

definition round_double :: "rat \<Rightarrow> double" where
  "round_double x =
     (if x = 0 then Fin 0
      else if overflows \<bar>x\<bar> then (if x > 0 then PosInf else NegInf)
      else Fin (if x > 0 then round_magnitude \<bar>x\<bar> else - round_magnitude \<bar>x\<bar>))"

text \<open>The operators \<open>/\<close>, \<open>*\<close>, \<open>-\<close> and \<open>%\<close> on doubles.\<close>

fun ddiv :: "double \<Rightarrow> double \<Rightarrow> double" where
  "ddiv (Fin a) (Fin b) =
     (if b = 0 then (if a = 0 then NaN else if a > 0 then PosInf else NegInf)
      else round_double (a / b))"
| "ddiv (Fin a) PosInf = Fin 0"
| "ddiv (Fin a) NegInf = Fin 0"
| "ddiv PosInf (Fin b) = (if b \<ge> 0 then PosInf else NegInf)"
| "ddiv NegInf (Fin b) = (if b \<ge> 0 then NegInf else PosInf)"
| "ddiv x y = NaN"

fun dmul :: "double \<Rightarrow> double \<Rightarrow> double" where
  "dmul (Fin a) (Fin b) = round_double (a * b)"
| "dmul (Fin a) PosInf = (if a = 0 then NaN else if a > 0 then PosInf else NegInf)"
| "dmul (Fin a) NegInf = (if a = 0 then NaN else if a > 0 then NegInf else PosInf)"
| "dmul PosInf (Fin b) = (if b = 0 then NaN else if b > 0 then PosInf else NegInf)"
| "dmul NegInf (Fin b) = (if b = 0 then NaN else if b > 0 then NegInf else PosInf)"
| "dmul PosInf PosInf = PosInf"
| "dmul PosInf NegInf = NegInf"
| "dmul NegInf PosInf = NegInf"
| "dmul NegInf NegInf = PosInf"
| "dmul x y = NaN"

fun dsub :: "double \<Rightarrow> double \<Rightarrow> double" where
  "dsub (Fin a) (Fin b) = round_double (a - b)"
| "dsub (Fin a) PosInf = NegInf"
| "dsub (Fin a) NegInf = PosInf"
| "dsub PosInf (Fin b) = PosInf"
| "dsub NegInf (Fin b) = NegInf"
| "dsub PosInf NegInf = PosInf"
| "dsub NegInf PosInf = NegInf"
| "dsub x y = NaN"

text \<open>
  The remainder has the sign of the dividend and is exact: the quotient is truncated
  towards zero.
\<close>

fun dmod :: "double \<Rightarrow> double \<Rightarrow> double" where
  "dmod (Fin a) (Fin b) =
     (if b = 0 then NaN
      else Fin (a - b * of_int (if a / b \<ge> 0 then \<lfloor>a / b\<rfloor> else \<lceil>a / b\<rceil>)))"
| "dmod (Fin a) PosInf = Fin a"
| "dmod (Fin a) NegInf = Fin a"
| "dmod x y = NaN"

text \<open>The comparisons \<open><\<close>, \<open>>\<close> and \<open><=\<close>: false as soon as a side is NaN.\<close>

fun dless :: "double \<Rightarrow> double \<Rightarrow> bool" where
  "dless (Fin a) (Fin b) = (a < b)"
| "dless (Fin a) PosInf = True"
| "dless NegInf (Fin b) = True"
| "dless NegInf PosInf = True"
| "dless x y = False"

definition dgt :: "double \<Rightarrow> double \<Rightarrow> bool" where
  "dgt x y = dless y x"

definition dle :: "double \<Rightarrow> double \<Rightarrow> bool" where
  "dle x y = (dless x y \<or> (x = y \<and> x \<noteq> NaN))"

text \<open>\<open>Math.min\<close>, \<open>Math.max\<close> and \<open>Math.floor\<close>.\<close>

definition dmin :: "double \<Rightarrow> double \<Rightarrow> double" where
  "dmin x y = (if x = NaN \<or> y = NaN then NaN else if dless y x then y else x)"

definition dmax :: "double \<Rightarrow> double \<Rightarrow> double" where
  "dmax x y = (if x = NaN \<or> y = NaN then NaN else if dless x y then y else x)"

fun dfloor :: "double \<Rightarrow> double" where
  "dfloor (Fin a) = Fin (of_int \<lfloor>a\<rfloor>)"
| "dfloor x = x"

text \<open>
  A numeric property of a parsed message: absent (\<open>undefined\<close>), \<open>null\<close>, or a number,
  which \<open>JSON.parse\<close> rounds to a double. In arithmetic \<open>undefined\<close> counts as NaN and
  \<open>null\<close> as 0.
\<close>

datatype jsnum = NumUndefined | NumNull | Num rat

fun to_number :: "jsnum \<Rightarrow> double" where
  "to_number NumUndefined = NaN"
| "to_number NumNull = Fin 0"
| "to_number (Num r) = Fin r"

text \<open>
  The double that \<open>JSON.parse\<close> gives for a decimal literal within the range of the
  doubles: the nearest one.
\<close>

definition parsed :: "rat \<Rightarrow> rat" where
  "parsed x = (if x \<ge> 0 then round_magnitude x else - round_magnitude (- x))"

subsection \<open>The budget bar: \<open>renderBudget\<close>\<close>

text \<open>
  A budget snapshot; either number may be absent, and a number is a finite double (what
  \<open>JSON.parse\<close> gives for a literal within the range of the doubles). The bar is the
  element \<open>budget-fill\<close> (its width in percent and its class list) and the element
  \<open>budget-text\<close>, whose text is \<open>$used / $limit\<close> or \<open>$used\<close>, each amount printed by
  \<open>toFixed(2)\<close>.
\<close>

record budget =
  total_cost :: "rat option"
  limit :: "rat option"

datatype budget_text = UsedOverLimit rat rat | UsedOnly rat | NoText

record budget_bar =
  fill_width :: rat
  fill_class :: "string list"
  text_content :: budget_text

text \<open>The bar of the page before anything is drawn into it.\<close>

definition empty_bar :: budget_bar where
  "empty_bar = \<lparr>fill_width = 0, fill_class = [''budget-fill''], text_content = NoText\<rparr>"

text \<open>\<open>x || 0\<close> on a number that may be absent.\<close>

definition or_0 :: "rat option \<Rightarrow> rat" where
  "or_0 x = (case x of None \<Rightarrow> 0 | Some v \<Rightarrow> v)"

text \<open>\<open>limit > 0 ? Math.min((used / limit) * 100, 100) : 0\<close>.\<close>

definition budget_percent :: "budget \<Rightarrow> double" where
  "budget_percent b =
     (if or_0 (limit b) > 0
      then dmin (dmul (ddiv (Fin (or_0 (total_cost b))) (Fin (or_0 (limit b)))) (Fin 100)) (Fin 100)
      else Fin 0)"

text \<open>
  \<open>fill.style.width = `${percent}%`\<close>: the browser drops a declaration whose value is
  not a valid width, which a negative percentage, an infinity and NaN are not, and the
  element keeps the width it had.
\<close>

definition set_width_percent :: "double \<Rightarrow> rat \<Rightarrow> rat" where
  "set_width_percent p old = (case p of Fin v \<Rightarrow> if v \<ge> 0 then v else old | _ \<Rightarrow> old)"

definition renderBudget :: "budget option \<Rightarrow> budget_bar \<Rightarrow> budget_bar" where
  "renderBudget budget bar =
     (case budget of
        None \<Rightarrow> bar
      | Some b \<Rightarrow>
          \<lparr> fill_width = (if or_0 (limit b) > 0
                          then set_width_percent (budget_percent b) (fill_width bar) else 0),
            fill_class = [''budget-fill'']
               @ (if dgt (budget_percent b) (Fin 80) then [''danger'']
                  else if dgt (budget_percent b) (Fin 50) then [''warning''] else []),
            text_content = (if or_0 (limit b) > 0
                            then UsedOverLimit (or_0 (total_cost b)) (or_0 (limit b))
                            else UsedOnly (or_0 (total_cost b))) \<rparr>)"

subsection \<open>Escaping text: \<open>escapeHtml\<close>\<close>

text \<open>
  \<open>escapeHtml\<close> assigns the string to the \<open>textContent\<close> of a fresh \<open>div\<close> and reads its
  \<open>innerHTML\<close>. The browser serialises the text node by the escaping steps of the HTML
  standard, in this order: every \<open>&\<close> becomes \<open>&amp;\<close>, every no-break space (U+00A0)
  becomes \<open>&nbsp;\<close>, every \<open><\<close> becomes \<open>&lt;\<close>, every \<open>>\<close> becomes \<open>&gt;\<close>.
  The three copies of the function (workflow.js, \<open>Toast\<close> and \<open>Autowrkers\<close> in app.js)
  are the same text.
\<close>

definition replaceAll :: "char \<Rightarrow> string \<Rightarrow> string \<Rightarrow> string" where
  "replaceAll c r s = concat (map (\<lambda>x. if x = c then r else [x]) s)"

definition nbsp :: char where
  "nbsp = CHR 0xA0"

definition escapeHtml :: "string \<Rightarrow> string" where
  "escapeHtml str =
     replaceAll (CHR ''>'') ''&gt;''
       (replaceAll (CHR ''<'') ''&lt;''
          (replaceAll nbsp ''&nbsp;''
             (replaceAll (CHR ''&'') ''&amp;'' str)))"

text \<open>The entity the claim gives each character.\<close>

definition html_entity :: "char \<Rightarrow> string" where
  "html_entity c =
     (if c = CHR ''&'' then ''&amp;''
      else if c = CHR ''<'' then ''&lt;''
      else if c = CHR ''>'' then ''&gt;''
      else if c = nbsp then ''&nbsp;''
      else [c])"

subsection \<open>The client state\<close>

text \<open>
  The fields of \<open>workflowApp\<close> that the modelled handlers read or write, followed by what
  they act on outside the object: the document, the sockets that \<open>new WebSocket\<close> made,
  the armed intervals and timeouts, the requests given to \<open>fetch\<close>, the alerts, the
  browser notifications (and whether the browser would show one now), and the uncaught
  errors. A handler that throws stops where it throws: what it wrote before
  stays written, and the error is appended to \<open>errors\<close>.
\<close>

record todo =
  content :: string
  priority :: string
  todo_status :: string

record progress =
  percent :: "int option"
  completed :: "int option"
  total :: "int option"
  in_progress :: "int option"

record approval =
  message :: string
  timeoutSeconds :: jsnum
  startedAt :: int

text \<open>The timer text of the banner: \<open>mins:secs\<close> or \<open>Expired\<close>.\<close>

datatype time_display = Remaining double double | Expired

text \<open>
  The element \<open>approval-banner\<close>: its \<open>style.display\<close> and, once drawn, the timer text
  and the escaped message (the Approve and Reject buttons are the same in every drawing).
\<close>

record banner =
  bn_display :: string
  bn_content :: "(time_display \<times> string) option"

datatype todo_icon =
  IconPending | IconInProgress | IconCompleted | IconCancelled | IconInherited string

record todo_row =
  row_status :: string
  row_icon :: todo_icon
  row_content :: string
  row_priority :: string

record panel_content =
  hdr_completed :: int
  hdr_total :: int
  bar_percent :: int
  hdr_in_progress :: "int option"
  rows :: "todo_row list"

record panel =
  pn_display :: string
  pn_content :: "panel_content option"

datatype pipeline_view = ViewUntouched | ViewNoPhases | ViewPipeline "pipeline_item list"

text \<open>
  The page. Whether it has the elements \<open>pipeline-header\<close> and \<open>pipeline-view\<close> is a
  parameter, since the markup of the page is not part of the scripts; the banner and the
  todo panel are made by the scripts on first use.
\<close>

record document =
  pipeline_header_present :: bool
  pipeline_view_present :: bool
  pipeline_title :: string
  pipeline_status :: string
  pipeline_actions :: "control list"
  pipeline_view :: pipeline_view
  budget_el :: budget_bar
  approval_banner :: "banner option"
  todo_panel :: "panel option"
  body_loading :: bool
  toasts :: "(string \<times> string) list"

text \<open>A message given to \<open>ws.send\<close>: the object \<open>{type, approved}\<close>.\<close>

datatype ws_msg = Message (msg_type: string) (approved: bool)

text \<open>
  A \<open>WebSocket\<close> object: its URL, its \<open>readyState\<close> (0 connecting, 1 open, 2 closing,
  3 closed), the execution its \<open>onclose\<close> handler was made for (\<open>None\<close> once the handler
  is set to null), and what was sent on it.
\<close>

record socket =
  sock_url :: string
  readyState :: nat
  onclose_for :: "string option"
  outbox :: "ws_msg list"

datatype error = TypeError

record client =
  executions :: "execution list"
  selectedExecution :: "execution option"
  ws :: "nat option"
  pendingApproval :: "approval option"
  approvalCountdownInterval :: "nat option"
  isLoading :: bool
  wsReconnectAttempts :: nat
  wsReconnectTimeout :: "nat option"
  todos :: "todo list"
  todoProgress :: "progress option"
  doc :: document
  sockets :: "socket list"
  intervals :: "(nat \<times> string \<times> jsnum) list"
  timeouts :: "(nat \<times> nat \<times> string) list"
  next_handle :: nat
  requests :: "(string \<times> string) list"
  alerts :: "string list"
  notifications :: "(string \<times> string) list"
  notify_ready :: bool
  errors :: "error list"

definition maxWsReconnectAttempts :: nat where
  "maxWsReconnectAttempts = 5"

text \<open>
  The outcome of a piece of a handler: \<open>Inr\<close> the state it leaves, or \<open>Inl\<close> the error
  it threw with the state at the throw.
\<close>

type_synonym outcome = "(error \<times> client) + client"

definition and_then :: "outcome \<Rightarrow> (client \<Rightarrow> outcome) \<Rightarrow> outcome" where
  "and_then r f = (case r of Inl e \<Rightarrow> Inl e | Inr c \<Rightarrow> f c)"

text \<open>An uncaught error ends the handler and is reported.\<close>

definition settle :: "outcome \<Rightarrow> client" where
  "settle r = (case r of Inl (e, c) \<Rightarrow> c\<lparr>errors := errors c @ [e]\<rparr> | Inr c \<Rightarrow> c)"

subsection \<open>Timers and toasts\<close>

definition clearInterval :: "nat \<Rightarrow> client \<Rightarrow> client" where
  "clearInterval h c = c\<lparr>intervals := filter (\<lambda>t. fst t \<noteq> h) (intervals c)\<rparr>"

definition clearTimeout :: "nat \<Rightarrow> client \<Rightarrow> client" where
  "clearTimeout h c = c\<lparr>timeouts := filter (\<lambda>t. fst t \<noteq> h) (timeouts c)\<rparr>"

definition showToast :: "string \<Rightarrow> string \<Rightarrow> client \<Rightarrow> client" where
  "showToast msg kind c = c\<lparr>doc := (doc c)\<lparr>toasts := toasts (doc c) @ [(msg, kind)]\<rparr>\<rparr>"

definition setLoading :: "bool \<Rightarrow> client \<Rightarrow> client" where
  "setLoading loading c = c\<lparr>isLoading := loading, doc := (doc c)\<lparr>body_loading := loading\<rparr>\<rparr>"

subsection \<open>The approval banner: \<open>hideApprovalBanner\<close>, \<open>showApprovalBanner\<close>\<close>

definition hideApprovalBanner :: "client \<Rightarrow> client" where
  "hideApprovalBanner c =
     (let c1 = c\<lparr>pendingApproval := None\<rparr>;
          c2 = (case approvalCountdownInterval c1 of
                  Some h \<Rightarrow> (clearInterval h c1)\<lparr>approvalCountdownInterval := None\<rparr>
                | None \<Rightarrow> c1)
      in c2\<lparr>doc := (doc c2)\<lparr>approval_banner :=
                 map_option (\<lambda>b. b\<lparr>bn_display := ''none''\<rparr>) (approval_banner (doc c2))\<rparr>\<rparr>)"

text \<open>
  \<open>remaining\<close>, \<open>mins\<close>, \<open>secs\<close> and \<open>timeDisplay\<close> of \<open>updateBanner\<close>, from the
  timeout, the start and the clock (both in milliseconds):
  \<open>Math.max(0, timeoutSeconds - (Date.now() - startedAt) / 1000)\<close>,
  \<open>Math.floor(remaining / 60)\<close> and \<open>Math.floor(remaining % 60)\<close>.
\<close>

definition remaining_seconds :: "jsnum \<Rightarrow> int \<Rightarrow> int \<Rightarrow> double" where
  "remaining_seconds timeout started now =
     dmax (Fin 0)
       (dsub (to_number timeout)
          (ddiv (dsub (Fin (of_int now)) (Fin (of_int started))) (Fin 1000)))"

definition timeDisplay :: "double \<Rightarrow> time_display" where
  "timeDisplay remaining =
     (if dgt remaining (Fin 0)
      then Remaining (dfloor (ddiv remaining (Fin 60))) (dfloor (dmod remaining (Fin 60)))
      else Expired)"

text \<open>
  The closure \<open>updateBanner\<close> of a banner opened with \<open>msg\<close> and \<open>timeout\<close>, run when
  the clock reads \<open>now\<close>. It reads \<open>this.pendingApproval.startedAt\<close>, which throws when
  \<open>pendingApproval\<close> is null. It writes to the banner element that \<open>showApprovalBanner\<close>
  found or made, which is the one in the document if there is one.
\<close>

definition updateBanner :: "string \<Rightarrow> jsnum \<Rightarrow> int \<Rightarrow> client \<Rightarrow> outcome" where
  "updateBanner msg timeout now c =
     (case pendingApproval c of
        None \<Rightarrow> Inl (TypeError, c)
      | Some pa \<Rightarrow>
          (let remaining = remaining_seconds timeout (startedAt pa) now;
               c1 = c\<lparr>doc := (doc c)\<lparr>approval_banner :=
                       map_option (\<lambda>b. b\<lparr>bn_content := Some (timeDisplay remaining, escapeHtml msg)\<rparr>)
                         (approval_banner (doc c))\<rparr>\<rparr>
           in if dle remaining (Fin 0)
              then (let c2 = showToast ''Approval request timed out'' ''warning'' c1;
                        c3 = (case approvalCountdownInterval c2 of
                                Some h \<Rightarrow> clearInterval h c2 | None \<Rightarrow> c2)
                    in Inr (hideApprovalBanner c3))
              else Inr c1))"

text \<open>
  \<open>showApprovalBanner(message, timeoutSeconds = 300)\<close>, called when the clock reads
  \<open>now\<close> (the clock is taken not to advance inside the call). The default replaces an
  absent timeout only: \<open>null\<close> stays \<open>null\<close> and counts as 0. The order is the source's:
  the first \<open>updateBanner()\<close> runs before \<open>setInterval\<close> and before the banner is displayed.
\<close>

definition showApprovalBanner :: "string \<Rightarrow> jsnum \<Rightarrow> int \<Rightarrow> client \<Rightarrow> client" where
  "showApprovalBanner msg timeout_arg now c =
     (let timeout = (if timeout_arg = NumUndefined then Num 300 else timeout_arg);
          c1 = c\<lparr>pendingApproval := Some \<lparr>message = msg, timeoutSeconds = timeout, startedAt = now\<rparr>\<rparr>;
          c2 = (case approvalCountdownInterval c1 of
                  Some h \<Rightarrow> clearInterval h c1 | None \<Rightarrow> c1);
          c3 = (if approval_banner (doc c2) = None \<and> pipeline_header_present (doc c2)
                then c2\<lparr>doc := (doc c2)\<lparr>approval_banner :=
                           Some \<lparr>bn_display = [], bn_content = None\<rparr>\<rparr>\<rparr>
                else c2);
          c4 = settle (updateBanner msg timeout now c3);
          c5 = c4\<lparr>approvalCountdownInterval := Some (next_handle c4),
                  intervals := intervals c4 @ [(next_handle c4, msg, timeout)],
                  next_handle := next_handle c4 + 1\<rparr>
      in c5\<lparr>doc := (doc c5)\<lparr>approval_banner :=
                 map_option (\<lambda>b. b\<lparr>bn_display := ''flex''\<rparr>) (approval_banner (doc c5))\<rparr>\<rparr>)"

text \<open>The interval with handle \<open>h\<close> fires: its closure runs, unless it was cleared.\<close>

definition interval_fires :: "nat \<Rightarrow> int \<Rightarrow> client \<Rightarrow> client" where
  "interval_fires h now c =
     (case map_of (intervals c) h of
        None \<Rightarrow> c
      | Some (msg, timeout) \<Rightarrow> settle (updateBanner msg timeout now c))"

text \<open>The banner is in the document and is displayed.\<close>

definition banner_displayed :: "client \<Rightarrow> bool" where
  "banner_displayed c =
     (case approval_banner (doc c) of None \<Rightarrow> False | Some b \<Rightarrow> bn_display b \<noteq> ''none'')"

subsection \<open>The socket: \<open>connectWebSocket\<close>, \<open>_connectWebSocket\<close> and the \<open>onclose\<close> handler\<close>

definition ws_url :: "string \<Rightarrow> string" where
  "ws_url executionId = ''/api/workflow/ws/'' @ executionId"

text \<open>
  \<open>_connectWebSocket\<close> makes a new socket (connecting, nothing sent on it), whose
  handlers are closures over \<open>executionId\<close>, and stores it in \<open>this.ws\<close>.
\<close>

definition connectWebSocket' :: "string \<Rightarrow> client \<Rightarrow> client" where
  "connectWebSocket' executionId c =
     c\<lparr>sockets := sockets c @ [\<lparr>sock_url = ws_url executionId, readyState = 0,
                                  onclose_for = Some executionId, outbox = []\<rparr>],
       ws := Some (length (sockets c))\<rparr>"

text \<open>\<open>ws.onclose = null; ws.close()\<close> on the socket at index \<open>k\<close>.\<close>

definition drop_socket :: "nat \<Rightarrow> socket list \<Rightarrow> socket list" where
  "drop_socket k ss =
     (if k < length ss
      then ss[k := (ss ! k)\<lparr>onclose_for := None,
                             readyState := (if readyState (ss ! k) < 2 then 2 else readyState (ss ! k))\<rparr>]
      else ss)"

definition connectWebSocket :: "string \<Rightarrow> client \<Rightarrow> client" where
  "connectWebSocket executionId c =
     (let c1 = (case wsReconnectTimeout c of
                  Some h \<Rightarrow> (clearTimeout h c)\<lparr>wsReconnectTimeout := None\<rparr>
                | None \<Rightarrow> c);
          c2 = (case ws c1 of
                  Some k \<Rightarrow> c1\<lparr>sockets := drop_socket k (sockets c1)\<rparr>
                | None \<Rightarrow> c1)
      in connectWebSocket' executionId (c2\<lparr>wsReconnectAttempts := 0\<rparr>))"

definition ws_onopen :: "client \<Rightarrow> client" where
  "ws_onopen c = c\<lparr>wsReconnectAttempts := 0\<rparr>"

text \<open>\<open>Math.min(1000 * Math.pow(2, this.wsReconnectAttempts), 30000)\<close>.\<close>

definition reconnect_delay :: "nat \<Rightarrow> nat" where
  "reconnect_delay attempts = min (1000 * 2 ^ attempts) 30000"

text \<open>
  The \<open>onclose\<close> handler of a socket made for \<open>executionId\<close>. The timeout it arms is
  kept as its handle, its delay and the execution its closure reconnects to.
\<close>

definition ws_onclose :: "string \<Rightarrow> client \<Rightarrow> client" where
  "ws_onclose executionId c =
     (let c1 = hideApprovalBanner c
      in if map_option ex_id (selectedExecution c1) = Some executionId
            \<and> wsReconnectAttempts c1 < maxWsReconnectAttempts
         then c1\<lparr>wsReconnectAttempts := wsReconnectAttempts c1 + 1,
                 wsReconnectTimeout := Some (next_handle c1),
                 timeouts := timeouts c1
                    @ [(next_handle c1, reconnect_delay (wsReconnectAttempts c1 + 1), executionId)],
                 next_handle := next_handle c1 + 1\<rparr>
         else c1)"

text \<open>The timeout with handle \<open>h\<close> fires, unless it was cleared; it fires once.\<close>

definition timeout_fires :: "nat \<Rightarrow> client \<Rightarrow> client" where
  "timeout_fires h c =
     (case map_of (timeouts c) h of
        None \<Rightarrow> c
      | Some (delay, executionId) \<Rightarrow> connectWebSocket' executionId (clearTimeout h c))"

text \<open>The network opens or closes the socket at index \<open>k\<close>, and its handler runs.\<close>

definition socket_opens :: "nat \<Rightarrow> client \<Rightarrow> client" where
  "socket_opens k c =
     (if k < length (sockets c) \<and> readyState (sockets c ! k) = 0
      then ws_onopen (c\<lparr>sockets := (sockets c)[k := (sockets c ! k)\<lparr>readyState := 1\<rparr>]\<rparr>)
      else c)"

definition socket_closes :: "nat \<Rightarrow> client \<Rightarrow> client" where
  "socket_closes k c =
     (if k < length (sockets c) \<and> readyState (sockets c ! k) \<noteq> 3
      then (let c1 = c\<lparr>sockets := (sockets c)[k := (sockets c ! k)\<lparr>readyState := 3\<rparr>]\<rparr>
            in case onclose_for (sockets c ! k) of
                 Some executionId \<Rightarrow> ws_onclose executionId c1
               | None \<Rightarrow> c1)
      else c)"

text \<open>\<open>this.ws && this.ws.readyState === WebSocket.OPEN\<close>.\<close>

definition ws_is_open :: "client \<Rightarrow> bool" where
  "ws_is_open c =
     (case ws c of None \<Rightarrow> False
      | Some k \<Rightarrow> k < length (sockets c) \<and> readyState (sockets c ! k) = 1)"

definition ws_send :: "ws_msg \<Rightarrow> client \<Rightarrow> client" where
  "ws_send m c =
     (case ws c of None \<Rightarrow> c
      | Some k \<Rightarrow> if k < length (sockets c)
                  then c\<lparr>sockets := (sockets c)[k := (sockets c ! k)\<lparr>outbox := outbox (sockets c ! k) @ [m]\<rparr>]\<rparr>
                  else c)"

subsection \<open>Answering an approval request: \<open>respondToApproval\<close>\<close>

text \<open>
  \<open>fetch_settles\<close> says whether the promise of \<open>fetch\<close> is fulfilled (whatever the HTTP
  status) or rejected (a network error, which the \<open>catch\<close> answers with an alert and a
  \<open>return\<close>). The \<open>await\<close> is taken as one step.
\<close>

definition approval_endpoint :: "string \<Rightarrow> bool \<Rightarrow> string" where
  "approval_endpoint executionId approved_arg =
     ''/api/workflow/executions/'' @ executionId @ ''/''
       @ (if approved_arg then ''approve'' else ''reject'')"

definition respondToApproval :: "bool \<Rightarrow> bool \<Rightarrow> client \<Rightarrow> client" where
  "respondToApproval approved_arg fetch_settles c =
     (case selectedExecution c of
        None \<Rightarrow> c
      | Some ex \<Rightarrow>
          if ws_is_open c
          then hideApprovalBanner (ws_send (Message ''approve'' approved_arg) c)
          else (let c1 = c\<lparr>requests := requests c @ [(''POST'', approval_endpoint (ex_id ex) approved_arg)]\<rparr>
                in if fetch_settles
                   then hideApprovalBanner c1
                   else c1\<lparr>alerts := alerts c1 @ [''Failed to respond to approval request'']\<rparr>))"

subsection \<open>Drawing the pipeline and the todo panel: \<open>renderPipeline\<close>, \<open>renderTodos\<close>\<close>

record template_phase =
  tp_id :: string
  tp_name :: string
  tp_order :: "int option"

definition truncate_str :: "string \<Rightarrow> nat \<Rightarrow> string" where
  "truncate_str str len =
     (if str = [] then [] else if length str > len then take len str @ ''...'' else str)"

text \<open>
  The pending phases drawn from a template when no phase has run: \<open>order: p.order || i\<close>,
  and no \<open>parallel_with\<close> property.
\<close>

definition pendingPhases :: "template_phase list \<Rightarrow> phase list" where
  "pendingPhases templatePhases =
     map (\<lambda>(i, p). \<lparr>ph_id = tp_id p, phase_id = IdStr (tp_id p), phase_name = tp_name p,
                     ph_status = ''pending'',
                     order = Some (case tp_order p of
                                     None \<Rightarrow> int i
                                   | Some n \<Rightarrow> if n = 0 then int i else n),
                     parallel_with = Undefined\<rparr>)
         (enumerate 0 templatePhases)"

text \<open>
  \<open>renderPipeline(execution, artifacts, templatePhases)\<close>; the artifacts are not read.
  It writes the title (\<open>pipeline_heading\<close>), the status and the actions, and then the
  view (\<open>pipeline_markup\<close>: the phases that ran, else the template's phases as pending,
  else a placeholder). Every branch ends by writing \<open>view.innerHTML\<close>, which throws when
  the page has no \<open>pipeline-view\<close>.
\<close>

definition pipeline_markup :: "execution \<Rightarrow> template_phase list option \<Rightarrow> pipeline_view" where
  "pipeline_markup execution templatePhases =
     (case phase_executions execution of
        Some (p # ps) \<Rightarrow> ViewPipeline (groupPhases (p # ps))
      | _ \<Rightarrow> (case templatePhases of
                Some (t # ts) \<Rightarrow> ViewPipeline (groupPhases (pendingPhases (t # ts)))
              | _ \<Rightarrow> ViewNoPhases))"

definition pipeline_heading :: "execution \<Rightarrow> string" where
  "pipeline_heading execution =
     truncate_str (case task_description execution of
                     None \<Rightarrow> ''Workflow''
                   | Some d \<Rightarrow> if d = [] then ''Workflow'' else d) 50"

definition renderPipeline :: "execution \<Rightarrow> template_phase list option \<Rightarrow> client \<Rightarrow> outcome" where
  "renderPipeline execution templatePhases c =
     (let c1 = c\<lparr>doc := (doc c)\<lparr>pipeline_title := pipeline_heading execution,
                                   pipeline_status := status execution,
                                   pipeline_actions := renderActions execution\<rparr>\<rparr>
      in if pipeline_view_present (doc c1)
         then Inr (c1\<lparr>doc := (doc c1)\<lparr>pipeline_view := pipeline_markup execution templatePhases\<rparr>\<rparr>)
         else Inl (TypeError, c1))"

text \<open>\<open>x || d\<close> on a number that may be absent.\<close>

definition int_or :: "int option \<Rightarrow> int \<Rightarrow> int" where
  "int_or x d = (case x of None \<Rightarrow> d | Some v \<Rightarrow> if v = 0 then d else v)"

text \<open>
  \<open>icons[status] || (the pending icon)\<close>: \<open>icons\<close> is a plain object, so a status that
  names a property of \<open>Object.prototype\<close> finds that property, which is not falsy, and
  the panel prints it in place of an icon.
\<close>

definition object_prototype_names :: "string list" where
  "object_prototype_names =
     [''constructor'', ''hasOwnProperty'', ''isPrototypeOf'', ''propertyIsEnumerable'',
      ''toLocaleString'', ''toString'', ''valueOf'', ''__proto__'', ''__defineGetter__'',
      ''__defineSetter__'', ''__lookupGetter__'', ''__lookupSetter__'']"

definition getTodoStatusIcon :: "string \<Rightarrow> todo_icon" where
  "getTodoStatusIcon s =
     (if s = ''pending'' then IconPending
      else if s = ''in_progress'' then IconInProgress
      else if s = ''completed'' then IconCompleted
      else if s = ''cancelled'' then IconCancelled
      else if s \<in> set object_prototype_names then IconInherited s
      else IconPending)"

definition todo_panel_content :: "todo list \<Rightarrow> progress option \<Rightarrow> panel_content" where
  "todo_panel_content ts pr =
     \<lparr>hdr_completed = int_or (Option.bind pr completed) 0,
      hdr_total = int_or (Option.bind pr total) (int (length ts)),
      bar_percent = int_or (Option.bind pr percent) 0,
      hdr_in_progress = (if int_or (Option.bind pr in_progress) 0 > 0
                         then Some (int_or (Option.bind pr in_progress) 0) else None),
      rows = map (\<lambda>t. \<lparr>row_status = todo_status t, row_icon = getTodoStatusIcon (todo_status t),
                        row_content = escapeHtml (content t), row_priority = priority t\<rparr>) ts\<rparr>"

definition renderTodos :: "client \<Rightarrow> client" where
  "renderTodos c =
     (if todo_panel (doc c) = None \<and> \<not> pipeline_view_present (doc c) then c
      else (let container = (case todo_panel (doc c) of
                               None \<Rightarrow> \<lparr>pn_display = [], pn_content = None\<rparr>
                             | Some pn \<Rightarrow> pn)
            in if todos c = []
               then c\<lparr>doc := (doc c)\<lparr>todo_panel := Some (container\<lparr>pn_display := ''none''\<rparr>)\<rparr>\<rparr>
               else c\<lparr>doc := (doc c)\<lparr>todo_panel :=
                        Some (container\<lparr>pn_display := ''block'',
                                pn_content := Some (todo_panel_content (todos c) (todoProgress c))\<rparr>)\<rparr>\<rparr>))"

subsection \<open>Loading an execution: \<open>selectExecution\<close>\<close>

text \<open>
  \<open>selectExecution\<close> runs up to its \<open>await fetch\<close> when it is called, and the rest when
  the response is there.
\<close>

definition selectExecution_begin :: "string \<Rightarrow> client \<Rightarrow> client" where
  "selectExecution_begin executionId c =
     (setLoading True c)\<lparr>requests := requests c @ [(''GET'', ''/api/workflow/executions/'' @ executionId)]\<rparr>"

datatype fetch_result =
    NetworkError
  | HttpError
  | Loaded execution "template_phase list option" "budget option"

text \<open>\<open>executions.findIndex(e => e.id === id)\<close>, and the write of a status at that index.\<close>

fun findIndex :: "string \<Rightarrow> execution list \<Rightarrow> nat option" where
  "findIndex i [] = None"
| "findIndex i (e # es) = (if ex_id e = i then Some 0 else map_option Suc (findIndex i es))"

definition set_status_of :: "string \<Rightarrow> string \<Rightarrow> execution list \<Rightarrow> execution list" where
  "set_status_of i s es =
     (case findIndex i es of None \<Rightarrow> es | Some idx \<Rightarrow> es[idx := (es ! idx)\<lparr>status := s\<rparr>])"

definition selectExecution_resume :: "string \<Rightarrow> fetch_result \<Rightarrow> client \<Rightarrow> client" where
  "selectExecution_resume executionId response c =
     setLoading False
       (case response of
          Loaded ex tps b \<Rightarrow>
            (let c1 = c\<lparr>selectedExecution := Some ex,
                        executions := set_status_of executionId (status ex) (executions c)\<rparr>
             in case renderPipeline ex tps c1 of
                  Inl (e, c2) \<Rightarrow> showToast ''Failed to load execution details'' ''error'' c2
                | Inr c2 \<Rightarrow>
                    connectWebSocket executionId
                      (c2\<lparr>doc := (doc c2)\<lparr>budget_el := renderBudget b (budget_el (doc c2))\<rparr>\<rparr>))
        | _ \<Rightarrow> showToast ''Failed to load execution details'' ''error'' c)"

subsection \<open>Messages from the server: \<open>handleWebSocketMessage\<close>\<close>

record pending_approval =
  pa_message :: string
  pa_timeout_seconds :: jsnum

text \<open>The parsed message: its \<open>type\<close> and the properties the handler reads.\<close>

record ws_event =
  ev_type :: string
  ev_status :: "string option"
  ev_execution :: "execution option"
  ev_template_phases :: "template_phase list option"
  ev_pending_approval :: "pending_approval option"
  ev_todos :: "todo list option"
  ev_todo_progress :: "progress option"
  ev_progress :: "progress option"
  ev_message :: "string option"
  ev_timeout_seconds :: jsnum
  ev_budget :: "budget option"

text \<open>The six \<open>if\<close> statements of the handler, in the source's order.\<close>

definition on_update :: "ws_event \<Rightarrow> client \<Rightarrow> outcome" where
  "on_update data c =
     (if ev_type data = ''phase_update'' \<or> ev_type data = ''execution_update''
         \<or> ev_type data = ''status_update'' \<or> ev_type data = ''phase_complete''
      then (case selectedExecution c of
              None \<Rightarrow> Inl (TypeError, c)
            | Some ex \<Rightarrow>
                (let c1 = selectExecution_begin (ex_id ex) c
                 in case ev_status data of
                      Some s \<Rightarrow>
                        if ev_type data = ''status_update'' \<and> s \<noteq> []
                        then Inr (c1\<lparr>executions := set_status_of (ex_id ex) s (executions c1)\<rparr>)
                        else Inr c1
                    | None \<Rightarrow> Inr c1))
      else Inr c)"

definition on_init :: "ws_event \<Rightarrow> int \<Rightarrow> client \<Rightarrow> outcome" where
  "on_init data now c =
     (if ev_type data = ''init''
      then (case ev_execution data of
              None \<Rightarrow> Inl (TypeError, c)
            | Some ex \<Rightarrow>
                and_then (renderPipeline ex (ev_template_phases data) c)
                  (\<lambda>c1. let c2 = (case ev_pending_approval data of
                                     Some pa \<Rightarrow> showApprovalBanner (pa_message pa)
                                                  (pa_timeout_seconds pa) now c1
                                   | None \<Rightarrow> c1)
                         in Inr (case ev_todos data of
                                   Some ts \<Rightarrow> renderTodos (c2\<lparr>todos := ts,
                                                               todoProgress := ev_todo_progress data\<rparr>)
                                 | None \<Rightarrow> c2)))
      else Inr c)"

text \<open>
  \<open>showBrowserNotification(title, body)\<close> returns early unless the browser would show a
  notification; \<open>body.substring\<close> throws on an absent body.
\<close>

definition showBrowserNotification :: "string \<Rightarrow> string option \<Rightarrow> client \<Rightarrow> outcome" where
  "showBrowserNotification title body c =
     (if \<not> notify_ready c then Inr c
      else (case body of
              None \<Rightarrow> Inl (TypeError, c)
            | Some b \<Rightarrow> Inr (c\<lparr>notifications := notifications c @ [(title, take 100 b)]\<rparr>)))"

definition on_approval_needed :: "ws_event \<Rightarrow> int \<Rightarrow> client \<Rightarrow> outcome" where
  "on_approval_needed data now c =
     (if ev_type data = ''approval_needed''
      then showBrowserNotification ''Approval Required'' (ev_message data)
             (showApprovalBanner (case ev_message data of None \<Rightarrow> [] | Some m \<Rightarrow> m)
                (ev_timeout_seconds data) now c)
      else Inr c)"

definition on_approval_resolved :: "ws_event \<Rightarrow> client \<Rightarrow> outcome" where
  "on_approval_resolved data c =
     (if ev_type data = ''approval_resolved''
      then (let c1 = hideApprovalBanner c
            in case selectedExecution c1 of
                 None \<Rightarrow> Inl (TypeError, c1)
               | Some ex \<Rightarrow> Inr (selectExecution_begin (ex_id ex) c1))
      else Inr c)"

definition on_budget_update :: "ws_event \<Rightarrow> client \<Rightarrow> outcome" where
  "on_budget_update data c =
     (if ev_type data = ''budget_update'' \<and> ev_budget data \<noteq> None
      then Inr (c\<lparr>doc := (doc c)\<lparr>budget_el := renderBudget (ev_budget data) (budget_el (doc c))\<rparr>\<rparr>)
      else Inr c)"

definition on_todo_update :: "ws_event \<Rightarrow> client \<Rightarrow> outcome" where
  "on_todo_update data c =
     (if ev_type data = ''todo_update''
      then Inr (renderTodos (c\<lparr>todos := (case ev_todos data of None \<Rightarrow> [] | Some ts \<Rightarrow> ts),
                               todoProgress := ev_progress data\<rparr>))
      else Inr c)"

definition handleWebSocketMessage :: "ws_event \<Rightarrow> int \<Rightarrow> client \<Rightarrow> client" where
  "handleWebSocketMessage data now c =
     settle
       (and_then (and_then (and_then (and_then (and_then
          (on_update data c)
          (on_init data now))
          (on_approval_needed data now))
          (on_approval_resolved data))
          (on_budget_update data))
          (on_todo_update data))"

subsection \<open>The handlers as events\<close>

text \<open>
  What can happen to the client: a message arrives on a socket, the network opens or
  closes a socket, a timer fires, the user answers the banner, selects an execution (whose
  details arrive later) or presses Escape (\<open>closeAllModals\<close>, which hides the banner).
\<close>

datatype event =
    ServerMessage ws_event int
  | SocketOpens nat
  | SocketCloses nat
  | TimeoutFires nat
  | IntervalFires nat int
  | RespondToApproval bool bool
  | SelectExecution string
  | ExecutionLoaded string fetch_result
  | CloseAllModals

fun step :: "event \<Rightarrow> client \<Rightarrow> client" where
  "step (ServerMessage data now) c = handleWebSocketMessage data now c"
| "step (SocketOpens k) c = socket_opens k c"
| "step (SocketCloses k) c = socket_closes k c"
| "step (TimeoutFires h) c = timeout_fires h c"
| "step (IntervalFires h now) c = interval_fires h now c"
| "step (RespondToApproval a fetch_settles) c = respondToApproval a fetch_settles c"
| "step (SelectExecution executionId) c = selectExecution_begin executionId c"
| "step (ExecutionLoaded executionId response) c = selectExecution_resume executionId response c"
| "step CloseAllModals c = hideApprovalBanner c"

definition run :: "event list \<Rightarrow> client \<Rightarrow> client" where
  "run evs c = foldl (\<lambda>s e. step e s) c evs"

text \<open>Every message sent on any socket is an approval response.\<close>

definition only_approvals :: "client \<Rightarrow> bool" where
  "only_approvals c = list_all (\<lambda>s. list_all (\<lambda>m. msg_type m = ''approve'') (outbox s)) (sockets c)"

subsection \<open>Sample inputs\<close>

text \<open>
  Three phases in ascending order; the third runs alongside the first, and the second
  lies between them.
\<close>

definition phase_plan :: phase where
  "phase_plan = \<lparr>ph_id = ''pe-1'', phase_id = IdStr ''plan'', phase_name = ''Plan'',
     ph_status = ''completed'', order = Some 0, parallel_with = Null\<rparr>"

definition phase_build :: phase where
  "phase_build = \<lparr>ph_id = ''pe-2'', phase_id = IdStr ''build'', phase_name = ''Build'',
     ph_status = ''running'', order = Some 1, parallel_with = Null\<rparr>"

definition phase_audit :: phase where
  "phase_audit = \<lparr>ph_id = ''pe-3'', phase_id = IdStr ''audit'', phase_name = ''Audit'',
     ph_status = ''pending'', order = Some 2, parallel_with = IdStr ''plan''\<rparr>"

definition sample_execution :: "string \<Rightarrow> execution" where
  "sample_execution s = \<lparr>ex_id = ''ex-1'', status = s, task_description = Some ''Ship it'',
     phase_executions = None\<rparr>"

text \<open>
  The client as the page loads it, on a page that has the pipeline header and the
  pipeline view; then with an execution selected and its socket open.
\<close>

definition initial_client :: client where
  "initial_client =
     \<lparr>executions = [], selectedExecution = None, ws = None, pendingApproval = None,
      approvalCountdownInterval = None, isLoading = False, wsReconnectAttempts = 0,
      wsReconnectTimeout = None, todos = [], todoProgress = None,
      doc = \<lparr>pipeline_header_present = True, pipeline_view_present = True,
              pipeline_title = ''Select a workflow'', pipeline_status = [],
              pipeline_actions = [], pipeline_view = ViewUntouched, budget_el = empty_bar,
              approval_banner = None, todo_panel = None, body_loading = False, toasts = []\<rparr>,
      sockets = [], intervals = [], timeouts = [], next_handle = 1, requests = [],
      alerts = [], notifications = [], notify_ready = False, errors = []\<rparr>"

definition selected_client :: client where
  "selected_client =
     socket_opens 0
       (selectExecution_resume ''ex-1''
          (Loaded (sample_execution ''awaiting_approval'') None None)
          (selectExecution_begin ''ex-1''
             (initial_client\<lparr>executions := [sample_execution ''running'']\<rparr>)))"

definition no_event :: "string \<Rightarrow> ws_event" where
  "no_event t =
     \<lparr>ev_type = t, ev_status = None, ev_execution = None, ev_template_phases = None,
      ev_pending_approval = None, ev_todos = None, ev_todo_progress = None,
      ev_progress = None, ev_message = None, ev_timeout_seconds = NumUndefined, ev_budget = None\<rparr>"

definition approval_needed_event :: ws_event where
  "approval_needed_event =
     (no_event ''approval_needed'')\<lparr>ev_message := Some ''Deploy?'', ev_timeout_seconds := Num 5\<rparr>"

definition init_event :: ws_event where
  "init_event = (no_event ''init'')\<lparr>ev_execution := Some (sample_execution ''running'')\<rparr>"

definition expired_init_event :: ws_event where
  "expired_init_event =
     init_event\<lparr>ev_pending_approval := Some \<lparr>pa_message = ''Deploy?'', pa_timeout_seconds = Num 0\<rparr>\<rparr>"

definition other_execution :: execution where
  "other_execution = \<lparr>ex_id = ''ex-2'', status = ''running'', task_description = Some ''Other task'',
     phase_executions = None\<rparr>"

definition other_init_event :: ws_event where
  "other_init_event = (no_event ''init'')\<lparr>ev_execution := Some other_execution\<rparr>"

definition todo_update_event :: "todo list option \<Rightarrow> ws_event" where
  "todo_update_event ts = (no_event ''todo_update'')\<lparr>ev_todos := ts\<rparr>"

definition three_quarter_bar :: budget_bar where
  "three_quarter_bar = renderBudget (Some \<lparr>total_cost = Some 3, limit = Some 4\<rparr>) empty_bar"

definition negative_budget :: budget where
  "negative_budget = \<lparr>total_cost = Some (- 1), limit = Some 4\<rparr>"

text \<open>The snapshot \<open>{"total_cost": 0.28, "limit": 0.35}\<close>.\<close>

definition near_limit_budget :: budget where
  "near_limit_budget = \<lparr>total_cost = Some (parsed (28 / 100)), limit = Some (parsed (35 / 100))\<rparr>"

definition null_timeout_init_event :: ws_event where
  "null_timeout_init_event =
     init_event\<lparr>ev_pending_approval := Some \<lparr>pa_message = ''Deploy?'', pa_timeout_seconds = NumNull\<rparr>\<rparr>"

definition sample_todo :: todo where
  "sample_todo = \<lparr>content = ''write <tests>'', priority = ''high'', todo_status = ''in_progress''\<rparr>"

definition phase_update_event :: ws_event where
  "phase_update_event = no_event ''phase_update''"

definition banner_then_reload :: "event list" where
  "banner_then_reload =
     [ServerMessage approval_needed_event 1000,
      ServerMessage phase_update_event 1500,
      ExecutionLoaded ''ex-1'' (Loaded (sample_execution ''awaiting_approval'') None None)]"

definition banner_then_switch :: "event list" where
  "banner_then_switch =
     [ServerMessage approval_needed_event 1000,
      SelectExecution ''ex-2'',
      ExecutionLoaded ''ex-2'' (Loaded other_execution None None),
      SocketOpens 1]"

section \<open>Theorems\<close>

subsection \<open>Rounding\<close>

lemma pow2_pos: "pow2 k > 0"
  by (simp add: pow2_def)

lemma pow2_nat: "k \<ge> 0 \<Longrightarrow> pow2 k = 2 ^ nat k"
  by (simp add: pow2_def)

lemma pow2_neg: "k \<ge> 0 \<Longrightarrow> pow2 (- k) = 1 / 2 ^ nat k"
  by (cases "k = 0") (simp_all add: pow2_def)

lemma ilog2_bounds_ge1:
  assumes "x \<ge> 1"
  shows "pow2 (ilog2 x) \<le> x \<and> x < pow2 (ilog2 x + 1)"
proof -
  let ?m = "\<lfloor>x\<rfloor>"
  have m: "?m > 0" using assms by simp
  from bitlen_bounds [OF m]
  have b: "2 ^ nat (bitlen ?m - 1) \<le> ?m" "?m < 2 ^ nat (bitlen ?m)" by simp_all
  have k: "bitlen ?m \<ge> 1" using m by (simp add: bitlen_def floorlog_def)
  have "(of_int (2 ^ nat (bitlen ?m - 1)) :: rat) \<le> x"
    using b(1) by (simp only: le_floor_iff)
  then have lo: "(2::rat) ^ nat (bitlen ?m - 1) \<le> x"
    by simp
  have "x < (of_int (2 ^ nat (bitlen ?m)) :: rat)"
    using b(2) by (simp only: floor_less_iff)
  then have hi: "x < (2::rat) ^ nat (bitlen ?m)" by simp
  show ?thesis
    using lo hi k assms by (simp add: ilog2_def pow2_nat)
qed

lemma ilog2_bounds_lt1:
  assumes "0 < x" "x < 1"
  shows "pow2 (ilog2 x) \<le> x \<and> x < pow2 (ilog2 x + 1)"
proof -
  let ?m = "\<lceil>1 / x\<rceil>"
  let ?k = "bitlen (?m - 1)"
  have y: "1 / x > 1" using assms by simp
  then have m: "?m - 1 > 0" by (simp add: less_ceiling_iff)
  from bitlen_bounds [OF m]
  have b: "2 ^ nat (?k - 1) \<le> ?m - 1" "?m - 1 < 2 ^ nat ?k" by simp_all
  have k: "?k \<ge> 1" using m by (simp add: bitlen_def floorlog_def)
  have "?m \<le> 2 ^ nat ?k" using b(2) by simp
  then have "1 / x \<le> (of_int (2 ^ nat ?k) :: rat)" by (simp only: ceiling_le_iff)
  then have "1 / x \<le> (2::rat) ^ nat ?k" by simp
  then have lo: "1 / 2 ^ nat ?k \<le> x"
    using assms(1) by (simp add: field_simps)
  have "2 ^ nat (?k - 1) < ?m" using b(1) by simp
  then have "(of_int (2 ^ nat (?k - 1)) :: rat) < 1 / x" by (simp only: less_ceiling_iff)
  then have "(2::rat) ^ nat (?k - 1) < 1 / x" by simp
  then have hi: "x < 1 / 2 ^ nat (?k - 1)"
    using assms(1) by (simp add: field_simps)
  have e: "ilog2 x = - ?k" using assms by (simp add: ilog2_def)
  have p1: "pow2 (- ?k) = 1 / 2 ^ nat ?k" using k by (simp add: pow2_neg)
  have "- ?k + 1 = - (?k - 1)" by simp
  then have p2: "pow2 (- ?k + 1) = 1 / 2 ^ nat (?k - 1)"
    using k pow2_neg [of "?k - 1"] by simp
  show ?thesis unfolding e p1 p2 using lo hi by simp
qed

text \<open>\<open>ilog2\<close> is the exponent of its argument.\<close>

lemma ilog2_bounds: "x > 0 \<Longrightarrow> pow2 (ilog2 x) \<le> x \<and> x < pow2 (ilog2 x + 1)"
  using ilog2_bounds_ge1 [of x] ilog2_bounds_lt1 [of x] by (cases "x \<ge> 1") auto

lemma pow2_power_int: "pow2 k = power_int 2 k"
  by (simp add: pow2_def power_int_def inverse_eq_divide power_one_over)

lemma pow2_add: "pow2 (i + j) = pow2 i * pow2 j"
  by (simp add: pow2_power_int power_int_add)

lemma pow2_mono: "i \<le> j \<Longrightarrow> pow2 i \<le> pow2 j"
  by (simp add: pow2_power_int power_int_increasing)

lemma pow2_strict_mono: "i < j \<Longrightarrow> pow2 i < pow2 j"
  by (simp add: pow2_power_int power_int_strict_increasing)

lemma round_half_even_ge: "of_int k \<le> x \<Longrightarrow> k \<le> round_half_even x"
proof -
  assume "of_int k \<le> x"
  then have "k \<le> \<lfloor>x\<rfloor>" by (simp add: le_floor_iff)
  then show ?thesis by (simp add: round_half_even_def)
qed

lemma round_half_even_le: "x \<le> of_int k \<Longrightarrow> round_half_even x \<le> k"
proof (cases "x = of_int k")
  case True
  then show ?thesis by (simp add: round_half_even_def)
next
  case False
  assume "x \<le> of_int k"
  with False have "x < of_int k" by simp
  then have "\<lfloor>x\<rfloor> < k" by (simp add: floor_less_iff)
  then show ?thesis by (simp add: round_half_even_def)
qed

lemma spacing_times: "of_int (2 ^ 52) * pow2 (k - 52) = pow2 k"
  using pow2_add [of 52 "k - 52"] by (simp add: pow2_nat)

lemma spacing_times2: "of_int (2 ^ 53) * pow2 (k - 52) = pow2 (k + 1)"
  using pow2_add [of 53 "k - 52"] by (simp add: pow2_nat add.commute)

text \<open>A number overflows exactly when its rounded magnitude reaches \<open>2 ^ 1024\<close>.\<close>

lemma overflows_iff:
  assumes a: "a > 0"
  shows "overflows a = (round_magnitude a \<ge> pow2 1024)"
proof -
  let ?e = "ilog2 a"
  let ?E = "max ?e (- 1022)"
  let ?q = "pow2 (?E - 52)"
  let ?n = "significand a"
  have q: "?q > 0" by (rule pow2_pos)
  have r: "round_magnitude a = of_int ?n * ?q" by (simp add: round_magnitude_def)
  from ilog2_bounds [OF a] have lo: "pow2 ?e \<le> a" and hi: "a < pow2 (?e + 1)" by simp_all
  consider "?e > 1023" | "?e = 1023" | "?e < 1023" by linarith
  then show ?thesis
  proof cases
    case 1
    then have E: "?E = ?e" by simp
    have "of_int (2 ^ 52) * ?q \<le> a" using lo spacing_times [of ?e] E by simp
    then have "of_int (2 ^ 52) \<le> a / ?q" using q by (simp add: pos_le_divide_eq)
    then have "2 ^ 52 \<le> ?n" unfolding significand_def by (rule round_half_even_ge)
    then have "(of_int (2 ^ 52) :: rat) \<le> of_int ?n" by (simp only: of_int_le_iff)
    then have "of_int (2 ^ 52) * ?q \<le> of_int ?n * ?q" using q by (simp only: mult_le_cancel_right_pos)
    then have "pow2 ?e \<le> round_magnitude a" using spacing_times [of ?e] E r by simp
    moreover have "pow2 1024 \<le> pow2 ?e" using 1 by (intro pow2_mono) simp
    ultimately have "pow2 1024 \<le> round_magnitude a" by linarith
    then show ?thesis using 1 by (simp add: overflows_def)
  next
    case 2
    then have E: "?E = 1023" by simp
    have p: "pow2 1024 = of_int (2 ^ 53) * ?q" using spacing_times2 [of 1023] E by simp
    have "(pow2 1024 \<le> round_magnitude a) = ((of_int (2 ^ 53) :: rat) \<le> of_int ?n)"
      unfolding p r using q by (simp only: mult_le_cancel_right_pos)
    also have "\<dots> = (2 ^ 53 \<le> ?n)" by (simp only: of_int_le_iff)
    finally show ?thesis using 2 by (simp add: overflows_def)
  next
    case 3
    then have E: "?E \<le> 1022" by simp
    have "pow2 (?e + 1) \<le> pow2 (?E + 1)" by (intro pow2_mono) simp
    then have "a < of_int (2 ^ 53) * ?q" using hi spacing_times2 [of ?E] by simp
    then have "a / ?q \<le> of_int (2 ^ 53)" using q by (simp add: pos_divide_le_eq less_imp_le)
    then have "?n \<le> 2 ^ 53" unfolding significand_def by (rule round_half_even_le)
    then have "(of_int ?n :: rat) \<le> of_int (2 ^ 53)" by (simp only: of_int_le_iff)
    then have "of_int ?n * ?q \<le> of_int (2 ^ 53) * ?q" using q by (simp only: mult_le_cancel_right_pos)
    then have "round_magnitude a \<le> pow2 (?E + 1)" using spacing_times2 [of ?E] r by simp
    moreover have "pow2 (?E + 1) < pow2 1024" using E by (intro pow2_strict_mono) simp
    ultimately have "\<not> pow2 1024 \<le> round_magnitude a" by linarith
    then show ?thesis using 3 by (simp add: overflows_def)
  qed
qed

text \<open>Rounding moves a number by half a unit in the last place at most.\<close>

lemma round_half_even_near: "\<bar>of_int (round_half_even x) - x\<bar> \<le> 1 / 2"
proof -
  have "of_int \<lfloor>x\<rfloor> \<le> x" "x < of_int \<lfloor>x\<rfloor> + 1"
    using floor_correct [of x] by simp_all
  then show ?thesis
    by (auto simp: round_half_even_def abs_le_iff)
qed

lemma round_magnitude_near:
  "\<bar>round_magnitude a - a\<bar> \<le> pow2 (max (ilog2 a) (- 1022) - 52) / 2"
proof -
  let ?q = "pow2 (max (ilog2 a) (- 1022) - 52)"
  have q: "?q > 0" by (rule pow2_pos)
  have "round_magnitude a - a = (of_int (round_half_even (a / ?q)) - a / ?q) * ?q"
    using q by (simp add: round_magnitude_def significand_def left_diff_distrib)
  then have "\<bar>round_magnitude a - a\<bar> = \<bar>of_int (round_half_even (a / ?q)) - a / ?q\<bar> * \<bar>?q\<bar>"
    by (simp only: abs_mult)
  also have "\<dots> = \<bar>of_int (round_half_even (a / ?q)) - a / ?q\<bar> * ?q"
    using q by simp
  also have "\<dots> \<le> (1 / 2) * ?q"
    using round_half_even_near [of "a / ?q"] q by (intro mult_right_mono) simp_all
  finally show ?thesis by simp
qed

lemma round_half_even_nonneg: "x \<ge> 0 \<Longrightarrow> round_half_even x \<ge> 0"
  by (simp add: round_half_even_def)

lemma round_magnitude_nonneg: "a \<ge> 0 \<Longrightarrow> round_magnitude a \<ge> 0"
  unfolding round_magnitude_def significand_def
  by (intro mult_nonneg_nonneg) (simp_all add: round_half_even_nonneg pow2_pos less_imp_le)

lemma round_double_nonneg:
  "x \<ge> 0 \<Longrightarrow> round_double x = PosInf \<or> (\<exists>r\<ge>0. round_double x = Fin r)"
  using round_magnitude_nonneg [of "\<bar>x\<bar>"] by (auto simp: round_double_def)

lemma round_double_nonpos:
  "x \<le> 0 \<Longrightarrow> round_double x = NegInf \<or> (\<exists>r\<le>0. round_double x = Fin r)"
  using round_magnitude_nonneg [of "\<bar>x\<bar>"] by (auto simp: round_double_def)

subsection \<open>The action buttons\<close>

lemma renderActions_handlers:
  "invokes h (renderActions e) =
     ((h = ''runExecution'' \<and> status e = ''pending'')
      \<or> (h = ''cancelExecution'' \<and> status e \<in> {''running'', ''paused'', ''awaiting_approval''})
      \<or> (h = ''resumeExecution'' \<and> status e = ''paused'')
      \<or> (h = ''showArtifacts'' \<and> status e \<in> {''completed'', ''failed'', ''cancelled''}))"
  by (auto simp: renderActions_def invokes_def)

text \<open>
  C9. A Run button, calling \<open>runExecution\<close> on the execution, is in the actions bar exactly
  when the status is \<open>pending\<close>, and a Resume button, calling \<open>resumeExecution\<close>, exactly
  when the status is \<open>paused\<close>; no other button of the bar calls either operation.
\<close>

theorem renderActions_run_resume:
  "(run_control e \<in> set (renderActions e)) = (status e = ''pending'')
   \<and> invokes ''runExecution'' (renderActions e) = (status e = ''pending'')
   \<and> (resume_control e \<in> set (renderActions e)) = (status e = ''paused'')
   \<and> invokes ''resumeExecution'' (renderActions e) = (status e = ''paused'')"
  by (auto simp: renderActions_def invokes_def run_control_def resume_control_def)

theorem renderActions_run_resume_witness:
  "renderActions (sample_execution ''pending'')
     = [Button ''btn btn-primary'' ''runExecution'' ''ex-1'' ''Run'']
   \<and> invokes ''runExecution'' (renderActions (sample_execution ''pending''))
   \<and> \<not> invokes ''resumeExecution'' (renderActions (sample_execution ''pending''))
   \<and> resume_control (sample_execution ''paused'')
        \<in> set (renderActions (sample_execution ''paused''))"
  using renderActions_run_resume [of "sample_execution ''pending''"]
        renderActions_run_resume [of "sample_execution ''paused''"]
  by (simp add: sample_execution_def renderActions_def)

text \<open>
  C2, as stated, fails: \<open>pending\<close> is a non-terminal status, and the bar of a pending
  execution holds the Run button only.
\<close>

theorem renderActions_pending_no_cancel:
  "non_terminal_status (status (sample_execution ''pending''))
   \<and> renderActions (sample_execution ''pending'')
       = [Button ''btn btn-primary'' ''runExecution'' ''ex-1'' ''Run'']
   \<and> \<not> invokes ''cancelExecution'' (renderActions (sample_execution ''pending''))"
  by (simp add: sample_execution_def renderActions_def invokes_def non_terminal_status_def)

text \<open>
  C2, amended. A Cancel button, calling \<open>cancelExecution\<close> on the execution, is in the
  actions bar exactly when the status is \<open>running\<close>, \<open>paused\<close> or \<open>awaiting_approval\<close>;
  so there is none for a terminal status (\<open>completed\<close>, \<open>failed\<close>, \<open>cancelled\<close>), and
  none for \<open>pending\<close>.
\<close>

theorem renderActions_cancel:
  "(cancel_control e \<in> set (renderActions e))
     = (status e \<in> {''running'', ''paused'', ''awaiting_approval''})
   \<and> invokes ''cancelExecution'' (renderActions e)
     = (status e \<in> {''running'', ''paused'', ''awaiting_approval''})
   \<and> (terminal_status (status e) \<or> status e = ''pending''
        \<longrightarrow> \<not> invokes ''cancelExecution'' (renderActions e))"
  by (auto simp: renderActions_def invokes_def cancel_control_def terminal_status_def)

theorem renderActions_cancel_witness:
  "terminal_status (status (sample_execution ''failed''))
   \<and> \<not> invokes ''cancelExecution'' (renderActions (sample_execution ''failed''))
   \<and> cancel_control (sample_execution ''awaiting_approval'')
        \<in> set (renderActions (sample_execution ''awaiting_approval''))"
  using renderActions_cancel [of "sample_execution ''failed''"]
        renderActions_cancel [of "sample_execution ''awaiting_approval''"]
  by (simp add: sample_execution_def terminal_status_def)

subsection \<open>Escaping\<close>

lemma replaceAll_Nil [simp]: "replaceAll c r [] = []"
  by (simp add: replaceAll_def)

lemma replaceAll_append [simp]: "replaceAll c r (xs @ ys) = replaceAll c r xs @ replaceAll c r ys"
  by (simp add: replaceAll_def)

lemma replaceAll_Cons: "replaceAll c r (x # xs) = (if x = c then r else [x]) @ replaceAll c r xs"
  by (simp add: replaceAll_def)

lemma escapeHtml_Cons: "escapeHtml (x # xs) = html_entity x @ escapeHtml xs"
  by (simp add: escapeHtml_def replaceAll_Cons html_entity_def nbsp_def)

lemma escapeHtml_concat: "escapeHtml s = concat (map html_entity s)"
proof (induction s)
  case Nil
  show ?case by (simp add: escapeHtml_def)
next
  case (Cons x xs)
  then show ?case by (simp add: escapeHtml_Cons)
qed

lemma html_entity_no_angle:
  "CHR ''<'' \<notin> set (html_entity c) \<and> CHR ''>'' \<notin> set (html_entity c)"
  by (simp add: html_entity_def)

text \<open>
  C10. \<open>escapeHtml\<close> replaces every character of its input by that character's entity
  (\<open>&amp;\<close> for \<open>&\<close>, \<open>&lt;\<close> for \<open><\<close>, \<open>&gt;\<close> for \<open>>\<close>) and leaves the others as they
  are (but for the no-break space, written \<open>&nbsp;\<close>); the result holds no \<open><\<close> and no
  \<open>>\<close>, so no tag can start in it.
\<close>

theorem escapeHtml_entities:
  "escapeHtml s = concat (map html_entity s)
   \<and> CHR ''<'' \<notin> set (escapeHtml s) \<and> CHR ''>'' \<notin> set (escapeHtml s)"
proof -
  have eq: "escapeHtml s = concat (map html_entity s)"
    by (rule escapeHtml_concat)
  have "CHR ''<'' \<notin> set (concat (map html_entity s))"
    using html_entity_no_angle by simp
  moreover have "CHR ''>'' \<notin> set (concat (map html_entity s))"
    using html_entity_no_angle by simp
  ultimately show ?thesis
    using eq by simp
qed

theorem escapeHtml_entities_witness:
  "escapeHtml ''<b>a&b</b>'' = ''&lt;b&gt;a&amp;b&lt;/b&gt;''
   \<and> CHR ''<'' \<notin> set (escapeHtml ''<b>a&b</b>'')"
  using escapeHtml_entities [of "''<b>a&b</b>''"]
  by (simp add: html_entity_def nbsp_def)

subsection \<open>The budget bar\<close>

lemma budget_percent_nonneg:
  assumes "l > 0" "u \<ge> 0"
  shows "\<exists>p\<ge>0. dmin (dmul (ddiv (Fin u) (Fin l)) (Fin 100)) (Fin 100) = Fin p"
proof -
  have "u / l \<ge> 0" using assms by simp
  from round_double_nonneg [OF this]
  consider "round_double (u / l) = PosInf" | r where "r \<ge> 0" "round_double (u / l) = Fin r"
    by blast
  then show ?thesis
  proof cases
    case 1
    then show ?thesis using assms by (simp add: dmin_def)
  next
    case 2
    have "r * 100 \<ge> 0" using 2(1) by simp
    from round_double_nonneg [OF this]
    consider "round_double (r * 100) = PosInf" | r' where "r' \<ge> 0" "round_double (r * 100) = Fin r'"
      by blast
    then show ?thesis
    proof cases
      case 1
      then show ?thesis using assms 2 by (simp add: dmin_def)
    next
      case 2
      then show ?thesis using assms \<open>round_double (u / l) = Fin r\<close> by (simp add: dmin_def)
    qed
  qed
qed

text \<open>
  C4, as stated, fails for a negative total cost: the percentage is negative, the browser
  drops the width, and the fill keeps the width it had. Here the bar shows 75 percent and
  is then drawn from a total cost of -1 with a limit of 4.
\<close>

theorem renderBudget_negative_cost_keeps_width:
  "limit negative_budget = Some 4
   \<and> dmin (dmul (ddiv (Fin (or_0 (total_cost negative_budget))) (Fin 4)) (Fin 100)) (Fin 100)
       = Fin (- 25)
   \<and> fill_width three_quarter_bar = 75
   \<and> fill_width (renderBudget (Some negative_budget) three_quarter_bar) = 75
   \<and> Fin (fill_width (renderBudget (Some negative_budget) three_quarter_bar))
       \<noteq> dmin (dmul (ddiv (Fin (or_0 (total_cost negative_budget))) (Fin 4)) (Fin 100)) (Fin 100)"
  by code_simp

text \<open>
  C4, amended. With a limit above 0 and a total cost that is not negative, the fill's
  width is \<open>min (total_cost / limit * 100) 100\<close> percent, the quotient and the product
  being those of the doubles. With a limit above 0 the fill has the class \<open>danger\<close> exactly
  when that percentage is above 80 and the class \<open>warning\<close> exactly when it is above 50
  and not above 80, and the text is the used amount over the limit. With no limit (0 or
  absent) the width is 0 percent, the fill has neither class, and the text is the used
  amount alone. An absent total cost counts as 0.
\<close>

theorem renderBudget_bar:
  "(limit b = Some l \<and> l > 0 \<longrightarrow>
      (or_0 (total_cost b) \<ge> 0 \<longrightarrow>
         Fin (fill_width (renderBudget (Some b) bar))
           = dmin (dmul (ddiv (Fin (or_0 (total_cost b))) (Fin l)) (Fin 100)) (Fin 100))
      \<and> (''danger'' \<in> set (fill_class (renderBudget (Some b) bar)))
          = dgt (dmin (dmul (ddiv (Fin (or_0 (total_cost b))) (Fin l)) (Fin 100)) (Fin 100)) (Fin 80)
      \<and> (''warning'' \<in> set (fill_class (renderBudget (Some b) bar)))
          = (dgt (dmin (dmul (ddiv (Fin (or_0 (total_cost b))) (Fin l)) (Fin 100)) (Fin 100)) (Fin 50)
             \<and> \<not> dgt (dmin (dmul (ddiv (Fin (or_0 (total_cost b))) (Fin l)) (Fin 100)) (Fin 100))
                     (Fin 80))
      \<and> text_content (renderBudget (Some b) bar) = UsedOverLimit (or_0 (total_cost b)) l)
   \<and> (limit b = None \<or> limit b = Some 0 \<longrightarrow>
      fill_width (renderBudget (Some b) bar) = 0
      \<and> fill_class (renderBudget (Some b) bar) = [''budget-fill'']
      \<and> text_content (renderBudget (Some b) bar) = UsedOnly (or_0 (total_cost b)))"
proof -
  have w: "limit b = Some l \<and> l > 0 \<Longrightarrow> or_0 (total_cost b) \<ge> 0 \<Longrightarrow>
         Fin (fill_width (renderBudget (Some b) bar))
           = dmin (dmul (ddiv (Fin (or_0 (total_cost b))) (Fin l)) (Fin 100)) (Fin 100)"
  proof -
    assume l: "limit b = Some l \<and> l > 0" and u: "or_0 (total_cost b) \<ge> 0"
    from budget_percent_nonneg [of l "or_0 (total_cost b)"] l u
    obtain p where "p \<ge> 0"
      and "dmin (dmul (ddiv (Fin (or_0 (total_cost b))) (Fin l)) (Fin 100)) (Fin 100) = Fin p"
      by blast
    then show ?thesis
      using l by (simp add: renderBudget_def budget_percent_def set_width_percent_def or_0_def)
  qed
  have c: "limit b = Some l \<and> l > 0 \<Longrightarrow>
      (''danger'' \<in> set (fill_class (renderBudget (Some b) bar)))
          = dgt (dmin (dmul (ddiv (Fin (or_0 (total_cost b))) (Fin l)) (Fin 100)) (Fin 100)) (Fin 80)
      \<and> (''warning'' \<in> set (fill_class (renderBudget (Some b) bar)))
          = (dgt (dmin (dmul (ddiv (Fin (or_0 (total_cost b))) (Fin l)) (Fin 100)) (Fin 100)) (Fin 50)
             \<and> \<not> dgt (dmin (dmul (ddiv (Fin (or_0 (total_cost b))) (Fin l)) (Fin 100)) (Fin 100))
                     (Fin 80))
      \<and> text_content (renderBudget (Some b) bar) = UsedOverLimit (or_0 (total_cost b)) l"
    by (simp add: renderBudget_def budget_percent_def or_0_def)
  have n: "limit b = None \<or> limit b = Some 0 \<Longrightarrow>
      fill_width (renderBudget (Some b) bar) = 0
      \<and> fill_class (renderBudget (Some b) bar) = [''budget-fill'']
      \<and> text_content (renderBudget (Some b) bar) = UsedOnly (or_0 (total_cost b))"
    by (auto simp: renderBudget_def budget_percent_def or_0_def dgt_def)
  from w c n show ?thesis by blast
qed

theorem renderBudget_bar_witness:
  "limit near_limit_budget = Some (parsed (35 / 100)) \<and> parsed (35 / 100) > 0
   \<and> or_0 (total_cost near_limit_budget) \<ge> 0
   \<and> fill_width (renderBudget (Some near_limit_budget) empty_bar) = 80 + 1 / 70368744177664
   \<and> ''danger'' \<in> set (fill_class (renderBudget (Some near_limit_budget) empty_bar))
   \<and> fill_width (renderBudget (Some \<lparr>total_cost = Some 3, limit = None\<rparr>) three_quarter_bar) = 0"
proof -
  have h: "limit near_limit_budget = Some (parsed (35 / 100)) \<and> parsed (35 / 100) > 0"
    by code_simp
  have u: "or_0 (total_cost near_limit_budget) \<ge> 0"
    by code_simp
  have v: "dmin (dmul (ddiv (Fin (or_0 (total_cost near_limit_budget))) (Fin (parsed (35 / 100))))
                   (Fin 100)) (Fin 100) = Fin (80 + 1 / 70368744177664)"
    by code_simp
  have g: "dgt (Fin (80 + 1 / 70368744177664)) (Fin 80)"
    by code_simp
  from renderBudget_bar [of near_limit_budget "parsed (35 / 100)" empty_bar] h u
  have "Fin (fill_width (renderBudget (Some near_limit_budget) empty_bar))
          = dmin (dmul (ddiv (Fin (or_0 (total_cost near_limit_budget))) (Fin (parsed (35 / 100))))
                   (Fin 100)) (Fin 100)"
    by blast
  with v have 1: "fill_width (renderBudget (Some near_limit_budget) empty_bar) = 80 + 1 / 70368744177664"
    by simp
  from renderBudget_bar [of near_limit_budget "parsed (35 / 100)" empty_bar] h
  have "(''danger'' \<in> set (fill_class (renderBudget (Some near_limit_budget) empty_bar)))
          = dgt (dmin (dmul (ddiv (Fin (or_0 (total_cost near_limit_budget))) (Fin (parsed (35 / 100))))
                   (Fin 100)) (Fin 100)) (Fin 80)"
    by blast
  with v g have 2: "''danger'' \<in> set (fill_class (renderBudget (Some near_limit_budget) empty_bar))"
    by simp
  have "limit \<lparr>total_cost = Some 3, limit = None\<rparr> = None"
    by simp
  with renderBudget_bar [of "\<lparr>total_cost = Some 3, limit = None\<rparr>" 0 three_quarter_bar]
  have 3: "fill_width (renderBudget (Some \<lparr>total_cost = Some 3, limit = None\<rparr>) three_quarter_bar) = 0"
    by blast
  from h u 1 2 3 show ?thesis by blast
qed

subsection \<open>The pipeline view\<close>

text \<open>
  Where no phase runs alongside another (no \<open>parallel_with\<close> equals a \<open>phase_id\<close> of
  the list), the pipeline draws every phase once, as a standalone phase, in ascending
  order.
\<close>

lemma rendered_cards_append:
  "rendered_cards (a @ b) = rendered_cards a @ rendered_cards b"
  by (simp add: rendered_cards_def)

lemma groupLoop_no_groups:
  assumes ng: "\<forall>p\<in>set xs. \<forall>q\<in>set xs. parallel_with p \<noteq> phase_id q"
  shows "rendered_cards (groupLoop xs i html) = rendered_cards html @ drop i xs"
proof (induction "length xs - i" arbitrary: i html)
  case 0
  then have "\<not> i < length xs" by simp
  then show ?case by (subst groupLoop.simps) simp
next
  case (Suc n)
  then have i: "i < length xs" by simp
  then have mem: "xs ! i \<in> set xs" by simp
  have f: "filter (\<lambda>p. parallel_with p = phase_id (xs ! i)) xs = []"
    using ng mem by (auto simp: filter_empty_conv)
  have e: "\<not> list_ex (\<lambda>p. parallel_with p = phase_id (xs ! i)) xs"
    using ng mem by (auto simp: list_ex_iff)
  have step: "groupLoop xs i html
      = groupLoop xs (i + 1) (html @ [StandalonePhase (xs ! i) (int i < int (length xs) - 1)])"
    using i f e by (subst groupLoop.simps) simp
  have n: "n = length xs - (i + 1)" using Suc.hyps(2) by simp
  have "rendered_cards (groupLoop xs i html)
      = rendered_cards (groupLoop xs (i + 1)
          (html @ [StandalonePhase (xs ! i) (int i < int (length xs) - 1)]))"
    by (subst step) (rule refl)
  also have "\<dots> = rendered_cards (html @ [StandalonePhase (xs ! i) (int i < int (length xs) - 1)])
                   @ drop (i + 1) xs"
    by (rule Suc.hyps(1) [OF n])
  also have "\<dots> = rendered_cards html @ drop i xs"
    using i by (simp add: rendered_cards_def Cons_nth_drop_Suc)
  finally show ?case .
qed

lemma groupPhases_no_groups:
  "\<forall>p\<in>set phases. \<forall>q\<in>set phases. parallel_with p \<noteq> phase_id q \<Longrightarrow>
   rendered_cards (groupPhases phases) = sort_key order_or_0 phases"
  using groupLoop_no_groups [of "sort_key order_or_0 phases" 0 "[]"]
  by (simp add: groupPhases_def rendered_cards_def)

text \<open>
  C1 asks that every phase be drawn exactly once, which \<open>groupPhases_no_groups\<close> gives
  for a list without parallel phases. With a group it fails: the loop steps over as many entries as
  the group has members, taking them to be the entries that follow the leading phase.
  With the three sample phases (orders 0, 1, 2; the third runs alongside the first) the
  group of the first phase holds the third, the loop steps over the second, which is never
  drawn, and then draws the third once more, as a standalone phase.
\<close>

theorem groupPhases_skips_and_repeats:
  "groupPhases [phase_plan, phase_build, phase_audit]
     = [ParallelGroup phase_plan [phase_audit] True, StandalonePhase phase_audit False]
   \<and> phase_build \<notin> set (rendered_cards (groupPhases [phase_plan, phase_build, phase_audit]))
   \<and> count_list (rendered_cards (groupPhases [phase_plan, phase_build, phase_audit])) phase_audit = 2"
  by (simp add: groupPhases_def rendered_cards_def order_or_0_def
        phase_plan_def phase_build_def phase_audit_def)

subsection \<open>The sample client\<close>

lemma selected_client_facts:
  "pipeline_view_present (doc selected_client) \<and> todo_panel (doc selected_client) = None
  \<and> map_option ex_id (selectedExecution selected_client) = Some ''ex-1''
  \<and> selectedExecution selected_client = Some (sample_execution ''awaiting_approval'')
  \<and> ws selected_client = Some 0 \<and> ws_is_open selected_client
  \<and> wsReconnectAttempts selected_client = 0 \<and> next_handle selected_client = 1
  \<and> timeouts selected_client = []
  \<and> sockets selected_client = [\<lparr>sock_url = ''/api/workflow/ws/ex-1'', readyState = 1,
          onclose_for = Some ''ex-1'', outbox = []\<rparr>]
  \<and> only_approvals selected_client"
  by code_simp


subsection \<open>What the handlers leave alone\<close>

lemma hide_facts:
  "pendingApproval (hideApprovalBanner c) = None
   \<and> approvalCountdownInterval (hideApprovalBanner c) = None
   \<and> \<not> banner_displayed (hideApprovalBanner c)
   \<and> (\<forall>h. approvalCountdownInterval c = Some h \<longrightarrow> h \<notin> fst ` set (intervals (hideApprovalBanner c)))
   \<and> timeouts (hideApprovalBanner c) = timeouts c
   \<and> next_handle (hideApprovalBanner c) = next_handle c
   \<and> selectedExecution (hideApprovalBanner c) = selectedExecution c
   \<and> wsReconnectAttempts (hideApprovalBanner c) = wsReconnectAttempts c
   \<and> ws (hideApprovalBanner c) = ws c
   \<and> requests (hideApprovalBanner c) = requests c
   \<and> wsReconnectTimeout (hideApprovalBanner c) = wsReconnectTimeout c"
  by (auto simp: hideApprovalBanner_def clearInterval_def Let_def banner_displayed_def
        split: option.splits)


lemma sockets_settle_and_then:
  "(\<And>c. sockets (settle (f c)) = sockets c) \<Longrightarrow>
   sockets (settle (and_then r f)) = sockets (settle r)"
  by (cases r) (auto simp: and_then_def settle_def)

lemma sockets_hide [simp]: "sockets (hideApprovalBanner c) = sockets c"
  by (simp add: hideApprovalBanner_def clearInterval_def Let_def split: option.splits)

lemma sockets_updateBanner [simp]: "sockets (settle (updateBanner m t now c)) = sockets c"
  by (simp add: updateBanner_def settle_def showToast_def clearInterval_def Let_def split: option.splits)

lemma sockets_show [simp]: "sockets (showApprovalBanner m t now c) = sockets c"
  by (simp add: showApprovalBanner_def Let_def clearInterval_def split: option.splits)

lemma sockets_renderTodos [simp]: "sockets (renderTodos c) = sockets c"
  by (simp add: renderTodos_def Let_def)

lemma sockets_renderPipeline [simp]: "sockets (settle (renderPipeline ex tps c)) = sockets c"
  by (simp add: renderPipeline_def settle_def Let_def)

lemma sockets_select_begin [simp]: "sockets (selectExecution_begin i c) = sockets c"
  by (simp add: selectExecution_begin_def setLoading_def)

lemma sockets_on_update: "sockets (settle (on_update data c)) = sockets c"
  by (simp add: on_update_def settle_def Let_def split: option.splits)

lemma sockets_on_init: "sockets (settle (on_init data now c)) = sockets c"
proof (cases "ev_type data = ''init''")
  case False
  then show ?thesis by (simp add: on_init_def settle_def)
next
  case True
  show ?thesis
  proof (cases "ev_execution data")
    case None
    with True show ?thesis by (simp add: on_init_def settle_def)
  next
    case (Some ex)
    have "sockets (settle (and_then (renderPipeline ex (ev_template_phases data) c)
                  (\<lambda>c1. let c2 = (case ev_pending_approval data of
                                     Some pa \<Rightarrow> showApprovalBanner (pa_message pa)
                                                  (pa_timeout_seconds pa) now c1
                                   | None \<Rightarrow> c1)
                         in Inr (case ev_todos data of
                                   Some ts \<Rightarrow> renderTodos (c2\<lparr>todos := ts,
                                                               todoProgress := ev_todo_progress data\<rparr>)
                                 | None \<Rightarrow> c2))))
          = sockets (settle (renderPipeline ex (ev_template_phases data) c))"
      by (rule sockets_settle_and_then) (simp add: settle_def Let_def split: option.splits)
    with True Some show ?thesis by (simp add: on_init_def)
  qed
qed

lemma sockets_on_approval_needed: "sockets (settle (on_approval_needed data now c)) = sockets c"
  by (simp add: on_approval_needed_def showBrowserNotification_def settle_def split: option.splits)

lemma sockets_on_approval_resolved: "sockets (settle (on_approval_resolved data c)) = sockets c"
  by (simp add: on_approval_resolved_def settle_def Let_def split: option.splits)

lemma sockets_on_budget_update: "sockets (settle (on_budget_update data c)) = sockets c"
  by (simp add: on_budget_update_def settle_def)

lemma sockets_on_todo_update: "sockets (settle (on_todo_update data c)) = sockets c"
  by (simp add: on_todo_update_def settle_def)

lemma settle_settle: "settle (Inr (settle r)) = settle r"
  by (simp add: settle_def)

lemma sockets_handle: "sockets (handleWebSocketMessage data now c) = sockets c"
  unfolding handleWebSocketMessage_def
  by (simp add: sockets_settle_and_then sockets_on_update sockets_on_init
        sockets_on_approval_needed sockets_on_approval_resolved sockets_on_budget_update
        sockets_on_todo_update)

lemma sockets_interval: "sockets (interval_fires h now c) = sockets c"
  by (simp add: interval_fires_def split: option.splits)

lemma only_approvals_connect':
  "only_approvals c \<Longrightarrow> only_approvals (connectWebSocket' i c)"
  by (simp add: only_approvals_def connectWebSocket'_def)

lemma outbox_drop_socket: "map outbox (drop_socket k ss) = map outbox ss"
  by (simp add: drop_socket_def map_update list_update_same_conv list_update_beyond not_less)

lemma only_approvals_outboxes:
  "only_approvals c = list_all (list_all (\<lambda>m. msg_type m = ''approve'')) (map outbox (sockets c))"
  by (simp add: only_approvals_def list_all_iff)

lemma outboxes_readyState:
  "map outbox (ss[k := (ss ! k)\<lparr>readyState := r\<rparr>]) = map outbox ss"
  by (cases "k < length ss") (simp_all add: map_update list_update_same_conv list_update_beyond)

lemma only_approvals_connect:
  "only_approvals c \<Longrightarrow> only_approvals (connectWebSocket i c)"
  by (simp add: only_approvals_outboxes connectWebSocket_def connectWebSocket'_def Let_def
        clearTimeout_def outbox_drop_socket split: option.splits)

lemma only_approvals_timeout:
  "only_approvals c \<Longrightarrow> only_approvals (timeout_fires h c)"
  by (simp add: only_approvals_outboxes timeout_fires_def connectWebSocket'_def
        clearTimeout_def split: option.splits)

lemma sockets_ws_onclose [simp]: "sockets (ws_onclose i c) = sockets c"
  by (simp add: ws_onclose_def Let_def)

lemma only_approvals_opens:
  "only_approvals c \<Longrightarrow> only_approvals (socket_opens k c)"
  by (simp add: only_approvals_outboxes socket_opens_def ws_onopen_def outboxes_readyState)

lemma only_approvals_closes:
  "only_approvals c \<Longrightarrow> only_approvals (socket_closes k c)"
  by (simp add: only_approvals_outboxes socket_closes_def outboxes_readyState Let_def split: option.splits)

lemma only_approvals_send:
  "only_approvals c \<Longrightarrow> only_approvals (ws_send (Message ''approve'' a) c)"
proof -
  assume oa: "only_approvals c"
  have upd: "\<And>k. k < length (sockets c) \<Longrightarrow>
      list_all (\<lambda>s. list_all (\<lambda>m. msg_type m = ''approve'') (outbox s))
        ((sockets c)[k := (sockets c ! k)\<lparr>outbox := outbox (sockets c ! k) @ [Message ''approve'' a]\<rparr>])"
  proof -
    fix k assume k: "k < length (sockets c)"
    let ?y = "(sockets c ! k)\<lparr>outbox := outbox (sockets c ! k) @ [Message ''approve'' a]\<rparr>"
    from k have "sockets c ! k \<in> set (sockets c)" by simp
    with oa have y: "\<forall>m\<in>set (outbox ?y). msg_type m = ''approve''"
      by (auto simp: only_approvals_def list_all_iff)
    have "set ((sockets c)[k := ?y]) \<subseteq> insert ?y (set (sockets c))"
      by (rule set_update_subset_insert)
    with oa y show "list_all (\<lambda>s. list_all (\<lambda>m. msg_type m = ''approve'') (outbox s))
        ((sockets c)[k := ?y])"
      unfolding only_approvals_def list_all_iff by blast
  qed
  show ?thesis
    using oa upd by (simp add: only_approvals_def ws_send_def split: option.splits)
qed

lemma only_approvals_respond:
  "only_approvals c \<Longrightarrow> only_approvals (respondToApproval a f c)"
  using only_approvals_send [of c a]
  by (simp add: respondToApproval_def only_approvals_def Let_def split: option.splits)

lemma only_approvals_resume:
  "only_approvals c \<Longrightarrow> only_approvals (selectExecution_resume i r c)"
proof (cases r)
  case (Loaded ex tps b)
  assume oa: "only_approvals c"
  let ?c1 = "c\<lparr>selectedExecution := Some ex,
                        executions := set_status_of i (status ex) (executions c)\<rparr>"
  show ?thesis
  proof (cases "renderPipeline ex tps ?c1")
    case (Inl p)
    obtain e c2 where p: "p = (e, c2)" by (cases p)
    have "sockets (settle (renderPipeline ex tps ?c1)) = sockets ?c1" by simp
    with Inl p have "sockets c2 = sockets c" by (simp add: settle_def)
    with oa Loaded Inl p show ?thesis
      by (simp add: selectExecution_resume_def only_approvals_def setLoading_def showToast_def)
  next
    case (Inr c2)
    have "sockets (settle (renderPipeline ex tps ?c1)) = sockets ?c1" by simp
    with Inr have s: "sockets c2 = sockets c" by (simp add: settle_def)
    let ?c3 = "c2\<lparr>doc := (doc c2)\<lparr>budget_el := renderBudget b (budget_el (doc c2))\<rparr>\<rparr>"
    have "only_approvals ?c3" using oa s by (simp add: only_approvals_def)
    then have "only_approvals (connectWebSocket i ?c3)" by (rule only_approvals_connect)
    with Loaded Inr show ?thesis
      by (simp add: selectExecution_resume_def only_approvals_def setLoading_def)
  qed
qed (simp_all add: selectExecution_resume_def only_approvals_def setLoading_def showToast_def)

lemma only_approvals_step: "only_approvals c \<Longrightarrow> only_approvals (step e c)"
proof (cases e)
  case (ServerMessage d n)
  assume "only_approvals c"
  then show ?thesis using ServerMessage by (simp add: only_approvals_def sockets_handle)
next
  case (IntervalFires h n)
  assume "only_approvals c"
  then show ?thesis using IntervalFires by (simp add: only_approvals_def sockets_interval)
qed (simp_all add: only_approvals_opens only_approvals_closes only_approvals_timeout
       only_approvals_respond only_approvals_resume, simp_all add: only_approvals_def)

lemma only_approvals_run: "only_approvals c \<Longrightarrow> only_approvals (run evs c)"
  unfolding run_def by (induction evs arbitrary: c) (simp_all add: only_approvals_step)

subsection \<open>Todo updates\<close>

lemma handle_todo_update:
  "ev_type data = ''todo_update'' \<Longrightarrow>
   handleWebSocketMessage data now c =
     renderTodos (c\<lparr>todos := (case ev_todos data of None \<Rightarrow> [] | Some ts \<Rightarrow> ts),
                    todoProgress := ev_progress data\<rparr>)"
  by (simp add: handleWebSocketMessage_def on_update_def on_init_def on_approval_needed_def
        on_approval_resolved_def on_budget_update_def on_todo_update_def and_then_def settle_def)

lemma renderTodos_frame:
  "renderTodos c = c\<lparr>doc := (doc c)\<lparr>todo_panel := todo_panel (doc (renderTodos c))\<rparr>\<rparr>"
  by (simp add: renderTodos_def Let_def)

lemma renderTodos_hidden:
  "todo_panel (doc c) \<noteq> None \<or> pipeline_view_present (doc c) \<Longrightarrow>
   \<exists>pn. todo_panel (doc (renderTodos c)) = Some pn
        \<and> (pn_display pn = ''none'') = (todos c = [])
        \<and> (pn_display pn = ''block'') = (todos c \<noteq> [])"
  by (auto simp: renderTodos_def Let_def)

text \<open>
  C8. Handling a \<open>todo_update\<close> message replaces the todo list by the message's list
  (the empty list when it has none) and the progress summary by the message's progress
  (none when it has none). Where the page can hold a todo panel (it has one already, or it
  has the pipeline view before which the panel is inserted), the panel is there afterwards
  and is hidden exactly when the new list is empty. Nothing else changes: the client
  afterwards is the client before with the todo list, the progress summary and the todo
  panel replaced.
\<close>

theorem todo_update_replaces:
  "ev_type data = ''todo_update'' \<longrightarrow>
     todos (handleWebSocketMessage data now c) = (case ev_todos data of None \<Rightarrow> [] | Some ts \<Rightarrow> ts)
   \<and> todoProgress (handleWebSocketMessage data now c) = ev_progress data
   \<and> (todo_panel (doc c) \<noteq> None \<or> pipeline_view_present (doc c) \<longrightarrow>
        (\<exists>pn. todo_panel (doc (handleWebSocketMessage data now c)) = Some pn
           \<and> (pn_display pn = ''none'') = (todos (handleWebSocketMessage data now c) = [])))
   \<and> handleWebSocketMessage data now c =
        c\<lparr>todos := todos (handleWebSocketMessage data now c),
          todoProgress := todoProgress (handleWebSocketMessage data now c),
          doc := (doc c)\<lparr>todo_panel := todo_panel (doc (handleWebSocketMessage data now c))\<rparr>\<rparr>"
proof
  assume t: "ev_type data = ''todo_update''"
  let ?c0 = "c\<lparr>todos := (case ev_todos data of None \<Rightarrow> [] | Some ts \<Rightarrow> ts),
               todoProgress := ev_progress data\<rparr>"
  have h: "handleWebSocketMessage data now c = renderTodos ?c0"
    using t by (rule handle_todo_update)
  have f: "renderTodos ?c0 = ?c0\<lparr>doc := (doc ?c0)\<lparr>todo_panel := todo_panel (doc (renderTodos ?c0))\<rparr>\<rparr>"
    by (rule renderTodos_frame)
  have t1: "todos (renderTodos ?c0) = (case ev_todos data of None \<Rightarrow> [] | Some ts \<Rightarrow> ts)"
    by (subst f) simp
  have t2: "todoProgress (renderTodos ?c0) = ev_progress data"
    by (subst f) simp
  have p: "todo_panel (doc c) \<noteq> None \<or> pipeline_view_present (doc c) \<longrightarrow>
        (\<exists>pn. todo_panel (doc (renderTodos ?c0)) = Some pn
           \<and> (pn_display pn = ''none'') = (todos (renderTodos ?c0) = []))"
  proof
    assume "todo_panel (doc c) \<noteq> None \<or> pipeline_view_present (doc c)"
    then have "todo_panel (doc ?c0) \<noteq> None \<or> pipeline_view_present (doc ?c0)" by simp
    from renderTodos_hidden [OF this] t1 show "\<exists>pn. todo_panel (doc (renderTodos ?c0)) = Some pn
           \<and> (pn_display pn = ''none'') = (todos (renderTodos ?c0) = [])"
      by auto
  qed
  have fr: "renderTodos ?c0 = c\<lparr>todos := todos (renderTodos ?c0),
          todoProgress := todoProgress (renderTodos ?c0),
          doc := (doc c)\<lparr>todo_panel := todo_panel (doc (renderTodos ?c0))\<rparr>\<rparr>"
    unfolding t1 t2 by (subst f) simp
  show "todos (handleWebSocketMessage data now c) = (case ev_todos data of None \<Rightarrow> [] | Some ts \<Rightarrow> ts)
   \<and> todoProgress (handleWebSocketMessage data now c) = ev_progress data
   \<and> (todo_panel (doc c) \<noteq> None \<or> pipeline_view_present (doc c) \<longrightarrow>
        (\<exists>pn. todo_panel (doc (handleWebSocketMessage data now c)) = Some pn
           \<and> (pn_display pn = ''none'') = (todos (handleWebSocketMessage data now c) = [])))
   \<and> handleWebSocketMessage data now c =
        c\<lparr>todos := todos (handleWebSocketMessage data now c),
          todoProgress := todoProgress (handleWebSocketMessage data now c),
          doc := (doc c)\<lparr>todo_panel := todo_panel (doc (handleWebSocketMessage data now c))\<rparr>\<rparr>"
    unfolding h using t1 t2 p fr by blast
qed

theorem todo_update_replaces_witness:
  "ev_type (todo_update_event None) = ''todo_update''
   \<and> pipeline_view_present (doc selected_client)
   \<and> todos (handleWebSocketMessage (todo_update_event None) 1000
               (selected_client\<lparr>todos := [sample_todo]\<rparr>)) = []
   \<and> map_option pn_display (todo_panel (doc (handleWebSocketMessage (todo_update_event None) 1000
               (selected_client\<lparr>todos := [sample_todo]\<rparr>)))) = Some ''none''"
proof -
  let ?c = "selected_client\<lparr>todos := [sample_todo]\<rparr>"
  let ?c' = "handleWebSocketMessage (todo_update_event None) 1000 ?c"
  have t: "ev_type (todo_update_event None) = ''todo_update''"
    by (simp add: todo_update_event_def no_event_def)
  have n: "ev_todos (todo_update_event None) = None"
    by (simp add: todo_update_event_def no_event_def)
  have v0: "pipeline_view_present (doc selected_client)"
    using selected_client_facts by blast
  then have v: "pipeline_view_present (doc ?c)"
    by simp
  from todo_update_replaces [of "todo_update_event None" 1000 ?c] t
  have 1: "todos ?c' = (case ev_todos (todo_update_event None) of None \<Rightarrow> [] | Some ts \<Rightarrow> ts)"
    by blast
  from todo_update_replaces [of "todo_update_event None" 1000 ?c] t v
  have 2: "\<exists>pn. todo_panel (doc ?c') = Some pn \<and> (pn_display pn = ''none'') = (todos ?c' = [])"
    by blast
  from 1 n have 3: "todos ?c' = []"
    by simp
  from 2 3 have "map_option pn_display (todo_panel (doc ?c')) = Some ''none''"
    by auto
  with 3 have "todos ?c' = [] \<and> map_option pn_display (todo_panel (doc ?c')) = Some ''none''"
    by simp
  with t v0 show ?thesis by blast
qed

subsection \<open>Reconnecting\<close>

text \<open>
  C5. When the socket made for an execution closes while that execution is selected and
  fewer than 5 reconnect attempts were made, the handler hides the approval banner and
  forgets the pending request, counts the attempt, and arms one timeout of
  \<open>min (1000 * 2 ^ attempt) 30000\<close> milliseconds, where \<open>attempt\<close> is the number of the
  attempt being started (the counter after its increment, as the handler logs it); no
  socket is touched until the timeout fires, and then a new socket to the execution's URL is
  made, connecting, with nothing sent on it, and becomes the current one. When another
  execution is selected (or none), or 5 attempts were made, the banner is hidden all the
  same and no timeout is armed.
\<close>

theorem ws_onclose_reconnects:
  "(map_option ex_id (selectedExecution c) = Some executionId
      \<and> wsReconnectAttempts c < 5 \<longrightarrow>
      pendingApproval (ws_onclose executionId c) = None
      \<and> approvalCountdownInterval (ws_onclose executionId c) = None
      \<and> \<not> banner_displayed (ws_onclose executionId c)
      \<and> wsReconnectAttempts (ws_onclose executionId c) = wsReconnectAttempts c + 1
      \<and> wsReconnectTimeout (ws_onclose executionId c) = Some (next_handle c)
      \<and> timeouts (ws_onclose executionId c)
          = timeouts c @ [(next_handle c,
                           min (1000 * 2 ^ (wsReconnectAttempts c + 1)) 30000, executionId)]
      \<and> sockets (ws_onclose executionId c) = sockets c
      \<and> (next_handle c \<notin> fst ` set (timeouts c) \<longrightarrow>
           sockets (timeout_fires (next_handle c) (ws_onclose executionId c))
             = sockets c @ [\<lparr>sock_url = ws_url executionId, readyState = 0,
                               onclose_for = Some executionId, outbox = []\<rparr>]
           \<and> ws (timeout_fires (next_handle c) (ws_onclose executionId c))
             = Some (length (sockets c))
           \<and> timeouts (timeout_fires (next_handle c) (ws_onclose executionId c)) = timeouts c))
   \<and> (\<not> (map_option ex_id (selectedExecution c) = Some executionId
          \<and> wsReconnectAttempts c < 5) \<longrightarrow>
      timeouts (ws_onclose executionId c) = timeouts c
      \<and> wsReconnectTimeout (ws_onclose executionId c) = wsReconnectTimeout c
      \<and> sockets (ws_onclose executionId c) = sockets c
      \<and> ws (ws_onclose executionId c) = ws c
      \<and> pendingApproval (ws_onclose executionId c) = None
      \<and> \<not> banner_displayed (ws_onclose executionId c))"
proof -
  note h = hide_facts [of c]
  have fresh: "next_handle c \<notin> fst ` set (timeouts c) \<Longrightarrow>
      map_of (timeouts c @ [(next_handle c, d, executionId)]) (next_handle c) = Some (d, executionId)
      \<and> filter (\<lambda>t. fst t \<noteq> next_handle c) (timeouts c @ [(next_handle c, d, executionId)]) = timeouts c" for d
    by (force simp: map_add_Some_iff map_of_eq_None_iff filter_id_conv)
  show ?thesis
  proof (cases "map_option ex_id (selectedExecution c) = Some executionId \<and> wsReconnectAttempts c < 5")
    case True
    then show ?thesis
      using h fresh [of "reconnect_delay (wsReconnectAttempts c + 1)"]
      by (simp add: ws_onclose_def Let_def maxWsReconnectAttempts_def banner_displayed_def
            timeout_fires_def connectWebSocket'_def clearTimeout_def reconnect_delay_def)
  next
    case False
    then show ?thesis
      using h
      by (auto simp: ws_onclose_def Let_def maxWsReconnectAttempts_def banner_displayed_def)
  qed
qed


theorem ws_onclose_reconnects_witness:
  "map_option ex_id (selectedExecution selected_client) = Some ''ex-1''
   \<and> wsReconnectAttempts selected_client < 5
   \<and> timeouts (ws_onclose ''ex-1'' selected_client) = [(1, 2000, ''ex-1'')]
   \<and> ws (timeout_fires 1 (ws_onclose ''ex-1'' selected_client)) = Some 1
   \<and> timeouts (ws_onclose ''ex-1'' (selected_client\<lparr>wsReconnectAttempts := 5\<rparr>)) = []
   \<and> timeouts (ws_onclose ''ex-2'' selected_client) = []"
proof -
  have a: "map_option ex_id (selectedExecution selected_client) = Some ''ex-1''
           \<and> wsReconnectAttempts selected_client < 5"
    by code_simp
  have fr: "next_handle selected_client \<notin> fst ` set (timeouts selected_client)"
    using selected_client_facts by simp
  have v: "next_handle selected_client = 1 \<and> timeouts selected_client = []
           \<and> wsReconnectAttempts selected_client = 0 \<and> length (sockets selected_client) = 1"
    using selected_client_facts by simp
  from ws_onclose_reconnects [of selected_client "''ex-1''"] a fr
  have "timeouts (ws_onclose ''ex-1'' selected_client)
          = timeouts selected_client @ [(next_handle selected_client,
               min (1000 * 2 ^ (wsReconnectAttempts selected_client + 1)) 30000, ''ex-1'')]
        \<and> ws (timeout_fires (next_handle selected_client) (ws_onclose ''ex-1'' selected_client))
          = Some (length (sockets selected_client))"
    by blast
  with v have 1: "timeouts (ws_onclose ''ex-1'' selected_client) = [(1, 2000, ''ex-1'')]
        \<and> ws (timeout_fires 1 (ws_onclose ''ex-1'' selected_client)) = Some 1"
    by simp
  have b: "\<not> (map_option ex_id (selectedExecution (selected_client\<lparr>wsReconnectAttempts := 5\<rparr>)) = Some ''ex-1''
           \<and> wsReconnectAttempts (selected_client\<lparr>wsReconnectAttempts := 5\<rparr>) < 5)"
    by simp
  from ws_onclose_reconnects [of "selected_client\<lparr>wsReconnectAttempts := 5\<rparr>" "''ex-1''"] b
  have "timeouts (ws_onclose ''ex-1'' (selected_client\<lparr>wsReconnectAttempts := 5\<rparr>))
          = timeouts (selected_client\<lparr>wsReconnectAttempts := 5\<rparr>)"
    by blast
  with v have 2: "timeouts (ws_onclose ''ex-1'' (selected_client\<lparr>wsReconnectAttempts := 5\<rparr>)) = []"
    by simp
  have c: "\<not> (map_option ex_id (selectedExecution selected_client) = Some ''ex-2''
           \<and> wsReconnectAttempts selected_client < 5)"
    by code_simp
  from ws_onclose_reconnects [of selected_client "''ex-2''"] c
  have "timeouts (ws_onclose ''ex-2'' selected_client) = timeouts selected_client"
    by blast
  with v have 3: "timeouts (ws_onclose ''ex-2'' selected_client) = []"
    by simp
  from a 1 2 3 show ?thesis by blast
qed

subsection \<open>Answering an approval request\<close>

text \<open>
  C7, as stated, fails where it says the banner is hidden in both cases. After an approval
  request arrived and the execution was reloaded, the new socket is still connecting; the
  answer goes by \<open>POST\<close>, and when that request is rejected (a network error) the handler
  alerts and returns before it hides the banner.
\<close>

theorem respondToApproval_failed_post_keeps_banner:
  "selectedExecution (run banner_then_reload selected_client) \<noteq> None
   \<and> \<not> ws_is_open (run banner_then_reload selected_client)
   \<and> banner_displayed (run banner_then_reload selected_client)
   \<and> requests (respondToApproval True False (run banner_then_reload selected_client))
       = requests (run banner_then_reload selected_client)
         @ [(''POST'', ''/api/workflow/executions/ex-1/approve'')]
   \<and> banner_displayed (respondToApproval True False (run banner_then_reload selected_client))"
  by code_simp

text \<open>
  C7, amended. With no execution selected \<open>respondToApproval\<close> does nothing. With the
  socket open it sends exactly one message on it, \<open>{type: 'approve', approved}\<close>, makes no
  request, and hides the banner. With the socket not open it sends nothing on any socket
  and posts to the \<open>approve\<close> or \<open>reject\<close> endpoint of the execution, by the boolean;
  the banner is hidden when the request completes, and when the request fails an alert is
  shown and the banner, the pending request and the countdown stay as they were. No
  handler sends any other message: whatever events happen, every message sent on any socket
  is an approval response.
\<close>

theorem respondToApproval_sends:
  "(selectedExecution c = None \<longrightarrow> respondToApproval a f c = c)
   \<and> (selectedExecution c = Some ex \<and> ws c = Some k \<and> ws_is_open c \<longrightarrow>
        sockets (respondToApproval a f c)
          = (sockets c)[k := (sockets c ! k)\<lparr>outbox := outbox (sockets c ! k) @ [Message ''approve'' a]\<rparr>]
        \<and> requests (respondToApproval a f c) = requests c
        \<and> pendingApproval (respondToApproval a f c) = None
        \<and> \<not> banner_displayed (respondToApproval a f c))
   \<and> (selectedExecution c = Some ex \<and> \<not> ws_is_open c \<longrightarrow>
        sockets (respondToApproval a f c) = sockets c
        \<and> requests (respondToApproval a f c)
            = requests c @ [(''POST'', ''/api/workflow/executions/'' @ ex_id ex @ ''/''
                                 @ (if a then ''approve'' else ''reject''))]
        \<and> (f \<longrightarrow> pendingApproval (respondToApproval a f c) = None
                  \<and> \<not> banner_displayed (respondToApproval a f c))
        \<and> (\<not> f \<longrightarrow> alerts (respondToApproval a f c)
                        = alerts c @ [''Failed to respond to approval request'']
                    \<and> pendingApproval (respondToApproval a f c) = pendingApproval c
                    \<and> intervals (respondToApproval a f c) = intervals c
                    \<and> doc (respondToApproval a f c) = doc c))
   \<and> (only_approvals c \<longrightarrow> only_approvals (run evs c))"
proof -
  have 1: "selectedExecution c = None \<longrightarrow> respondToApproval a f c = c"
    by (simp add: respondToApproval_def)
  have 2: "selectedExecution c = Some ex \<and> ws c = Some k \<and> ws_is_open c \<longrightarrow>
        sockets (respondToApproval a f c)
          = (sockets c)[k := (sockets c ! k)\<lparr>outbox := outbox (sockets c ! k) @ [Message ''approve'' a]\<rparr>]
        \<and> requests (respondToApproval a f c) = requests c
        \<and> pendingApproval (respondToApproval a f c) = None
        \<and> \<not> banner_displayed (respondToApproval a f c)"
    using hide_facts [of "ws_send (Message ''approve'' a) c"]
    by (auto simp: respondToApproval_def ws_is_open_def ws_send_def)
  have 3: "selectedExecution c = Some ex \<and> \<not> ws_is_open c \<longrightarrow>
        sockets (respondToApproval a f c) = sockets c
        \<and> requests (respondToApproval a f c)
            = requests c @ [(''POST'', ''/api/workflow/executions/'' @ ex_id ex @ ''/''
                                 @ (if a then ''approve'' else ''reject''))]
        \<and> (f \<longrightarrow> pendingApproval (respondToApproval a f c) = None
                  \<and> \<not> banner_displayed (respondToApproval a f c))
        \<and> (\<not> f \<longrightarrow> alerts (respondToApproval a f c)
                        = alerts c @ [''Failed to respond to approval request'']
                    \<and> pendingApproval (respondToApproval a f c) = pendingApproval c
                    \<and> intervals (respondToApproval a f c) = intervals c
                    \<and> doc (respondToApproval a f c) = doc c)"
    using hide_facts [of "c\<lparr>requests := requests c @ [(''POST'', approval_endpoint (ex_id ex) a)]\<rparr>"]
    by (auto simp: respondToApproval_def Let_def approval_endpoint_def)
  have 4: "only_approvals c \<longrightarrow> only_approvals (run evs c)"
    by (simp add: only_approvals_run)
  from 1 2 3 4 show ?thesis by blast
qed

theorem respondToApproval_sends_witness:
  "selectedExecution selected_client = Some (sample_execution ''awaiting_approval'')
   \<and> ws selected_client = Some 0 \<and> ws_is_open selected_client
   \<and> map outbox (sockets (respondToApproval False True selected_client)) = [Message ''approve'' False] # []
   \<and> requests (respondToApproval False True selected_client) = requests selected_client
   \<and> only_approvals selected_client
   \<and> only_approvals (run [RespondToApproval True True, SocketCloses 0] selected_client)
   \<and> respondToApproval True True (selected_client\<lparr>selectedExecution := None\<rparr>)
        = selected_client\<lparr>selectedExecution := None\<rparr>"
proof -
  have a: "selectedExecution selected_client = Some (sample_execution ''awaiting_approval'')
        \<and> ws selected_client = Some 0 \<and> ws_is_open selected_client"
    using selected_client_facts by blast
  have o: "only_approvals selected_client"
    using selected_client_facts by blast
  have s: "sockets selected_client = [\<lparr>sock_url = ''/api/workflow/ws/ex-1'', readyState = 1,
          onclose_for = Some ''ex-1'', outbox = []\<rparr>]"
    using selected_client_facts by blast
  from respondToApproval_sends [of selected_client False True
         "sample_execution ''awaiting_approval''" 0 "[RespondToApproval True True, SocketCloses 0]"] a o
  have "sockets (respondToApproval False True selected_client)
          = (sockets selected_client)[0 := (sockets selected_client ! 0)\<lparr>outbox :=
               outbox (sockets selected_client ! 0) @ [Message ''approve'' False]\<rparr>]
       \<and> requests (respondToApproval False True selected_client) = requests selected_client
       \<and> only_approvals (run [RespondToApproval True True, SocketCloses 0] selected_client)"
    by blast
  then have 1: "map outbox (sockets (respondToApproval False True selected_client)) = [Message ''approve'' False] # []
       \<and> requests (respondToApproval False True selected_client) = requests selected_client
       \<and> only_approvals (run [RespondToApproval True True, SocketCloses 0] selected_client)"
    by (simp add: s)
  have n: "selectedExecution (selected_client\<lparr>selectedExecution := None\<rparr>) = None"
    by simp
  from respondToApproval_sends [of "selected_client\<lparr>selectedExecution := None\<rparr>" True True] n
  have 2: "respondToApproval True True (selected_client\<lparr>selectedExecution := None\<rparr>)
        = selected_client\<lparr>selectedExecution := None\<rparr>"
    by blast
  from a o 1 2 show ?thesis by blast
qed

subsection \<open>The initial snapshot\<close>

lemma renderPipeline_ok:
  "pipeline_view_present (doc c) \<Longrightarrow>
   renderPipeline ex tps c =
     Inr (c\<lparr>doc := (doc c)\<lparr>
            pipeline_title := pipeline_heading ex,
            pipeline_status := status ex,
            pipeline_actions := renderActions ex,
            pipeline_view := pipeline_markup ex tps\<rparr>\<rparr>)"
  by (simp add: renderPipeline_def Let_def)

text \<open>
  What the handler does with an \<open>init\<close> message that carries an execution, on a page
  with the pipeline view: it redraws the pipeline from the message, opens the banner if
  the message carries a pending approval, and replaces the todos if it carries a list.
\<close>

lemma handle_init:
  "ev_type data = ''init'' \<Longrightarrow> ev_execution data = Some ex \<Longrightarrow> pipeline_view_present (doc c) \<Longrightarrow>
   handleWebSocketMessage data now c =
     (let c1 = c\<lparr>doc := (doc c)\<lparr>
            pipeline_title := pipeline_heading ex,
            pipeline_status := status ex,
            pipeline_actions := renderActions ex,
            pipeline_view := pipeline_markup ex (ev_template_phases data)\<rparr>\<rparr>;
          c2 = (case ev_pending_approval data of
                  Some pa \<Rightarrow> showApprovalBanner (pa_message pa) (pa_timeout_seconds pa) now c1
                | None \<Rightarrow> c1)
      in (case ev_todos data of
            Some ts \<Rightarrow> renderTodos (c2\<lparr>todos := ts, todoProgress := ev_todo_progress data\<rparr>)
          | None \<Rightarrow> c2))"
  by (simp add: handleWebSocketMessage_def on_update_def on_init_def on_approval_needed_def
        on_approval_resolved_def on_budget_update_def on_todo_update_def and_then_def settle_def
        renderPipeline_ok Let_def)

text \<open>
  C6 asks that the banner be shown only if the \<open>init\<close> message carries a pending
  approval. When a socket drops, its \<open>onclose\<close> handler hides the banner before the next
  \<open>init\<close>; when the user selects another execution, \<open>connectWebSocket\<close> sets
  \<open>onclose\<close> to null before it closes the socket, nothing hides the banner, and the
  \<open>init\<close> branch hides nothing either. Here an approval request arrives for \<open>ex-1\<close>,
  the user selects \<open>ex-2\<close>, and the \<open>init\<close> message of \<open>ex-2\<close> carries no pending
  approval: the banner of \<open>ex-1\<close> is still displayed, and its Approve button sends the
  approval on the socket of \<open>ex-2\<close>. Had the socket dropped instead, the banner would be
  hidden.
\<close>

theorem init_leaves_stale_banner:
  "ev_type other_init_event = ''init'' \<and> ev_pending_approval other_init_event = None
   \<and> map_option ex_id (selectedExecution (run banner_then_switch selected_client)) = Some ''ex-2''
   \<and> banner_displayed (handleWebSocketMessage other_init_event 2000 (run banner_then_switch selected_client))
   \<and> map_option bn_content (approval_banner (doc
        (handleWebSocketMessage other_init_event 2000 (run banner_then_switch selected_client))))
       = Some (Some (Remaining (Fin 0) (Fin 5), ''Deploy?''))
   \<and> map (\<lambda>s. (sock_url s, outbox s))
        (sockets (respondToApproval True True
           (handleWebSocketMessage other_init_event 2000 (run banner_then_switch selected_client))))
       = [(''/api/workflow/ws/ex-1'', []), (''/api/workflow/ws/ex-2'', [Message ''approve'' True])]
   \<and> \<not> banner_displayed (run [ServerMessage approval_needed_event 1000, SocketCloses 0] selected_client)"
  by code_simp

subsection \<open>The countdown\<close>

lemma interval_fires_without_request:
  "pendingApproval c = None \<Longrightarrow> map_of (intervals c) h = Some cl \<Longrightarrow>
   interval_fires h now c = c\<lparr>errors := errors c @ [TypeError]\<rparr>"
  by (cases cl) (simp add: interval_fires_def updateBanner_def settle_def)

lemma null_timeout_is_zero:
  "remaining_seconds NumNull started now = remaining_seconds (Num 0) started now"
  by (simp add: remaining_seconds_def)

text \<open>Once the elapsed seconds, as the code computes them, reach the timeout, nothing remains.\<close>

lemma remaining_expired:
  assumes "ddiv (dsub (Fin (of_int now)) (Fin (of_int started))) (Fin 1000) = Fin e" "t \<le> e"
  shows "remaining_seconds (Num t) started now = Fin 0"
proof -
  have "t - e \<le> 0" using assms(2) by simp
  from round_double_nonpos [OF this]
  show ?thesis
    using assms(1) by (auto simp: remaining_seconds_def dmax_def)
qed

text \<open>
  A tick of the countdown while the request is pending: the banner shows the time display
  of \<open>Math.max(0, timeoutSeconds - elapsed)\<close>, and when that is 0 the interval is cleared,
  the warning is shown and the banner is hidden.
\<close>

lemma countdown_tick:
  "pendingApproval c = Some pa \<Longrightarrow> approvalCountdownInterval c = Some h \<Longrightarrow>
   map_of (intervals c) h = Some (msg, t) \<Longrightarrow> approval_banner (doc c) = Some b \<Longrightarrow>
   (\<not> dle (remaining_seconds t (startedAt pa) now) (Fin 0) \<longrightarrow>
      approval_banner (doc (interval_fires h now c))
        = Some (b\<lparr>bn_content := Some (timeDisplay (remaining_seconds t (startedAt pa) now),
                                        escapeHtml msg)\<rparr>)
      \<and> pendingApproval (interval_fires h now c) = Some pa
      \<and> intervals (interval_fires h now c) = intervals c)
   \<and> (dle (remaining_seconds t (startedAt pa) now) (Fin 0) \<longrightarrow>
      \<not> banner_displayed (interval_fires h now c)
      \<and> pendingApproval (interval_fires h now c) = None
      \<and> approvalCountdownInterval (interval_fires h now c) = None
      \<and> h \<notin> fst ` set (intervals (interval_fires h now c))
      \<and> toasts (doc (interval_fires h now c))
           = toasts (doc c) @ [(''Approval request timed out'', ''warning'')])"
  by (auto simp: interval_fires_def updateBanner_def settle_def Let_def
        hideApprovalBanner_def showToast_def clearInterval_def banner_displayed_def)

text \<open>
  The display of 4.1 seconds after 100 milliseconds is \<open>0:03\<close>, since the difference of
  the doubles is just below 4; and a \<open>null\<close> timeout is expired at once.
\<close>

lemma countdown_display_rounds:
  "timeDisplay (remaining_seconds (Num (parsed (41 / 10))) 0 100) = Remaining (Fin 0) (Fin 3)
   \<and> map_option bn_content (approval_banner (doc
        (run [ServerMessage null_timeout_init_event 1000] selected_client)))
       = Some (Some (Expired, ''Deploy?''))"
  by code_simp

text \<open>
  C3 holds at the ticks of a banner whose request is still pending (\<open>countdown_tick\<close>),
  and fails for a timeout of 0 (or \<open>null\<close>, which counts as 0). \<open>showApprovalBanner\<close> runs the first \<open>updateBanner\<close>
  before it arms the interval and before it displays the banner: with a timeout of 0 that
  first run finds the request expired, warns, and hides the banner, and then the interval is
  armed and the banner is displayed all the same, reading \<open>Expired\<close>. Every later tick
  throws on the null \<open>pendingApproval\<close>, so the banner stays displayed and the interval
  stays armed. Here the \<open>init\<close> message carries a pending approval with 0 seconds left.
\<close>

theorem expired_banner_stays:
  "ev_pending_approval expired_init_event = Some \<lparr>pa_message = ''Deploy?'', pa_timeout_seconds = Num 0\<rparr>
   \<and> banner_displayed (run [ServerMessage expired_init_event 1000] selected_client)
   \<and> map_option bn_content (approval_banner (doc (run [ServerMessage expired_init_event 1000] selected_client)))
        = Some (Some (Expired, ''Deploy?''))
   \<and> toasts (doc (run [ServerMessage expired_init_event 1000] selected_client))
        = [(''Approval request timed out'', ''warning'')]
   \<and> pendingApproval (run [ServerMessage expired_init_event 1000] selected_client) = None
   \<and> intervals (run [ServerMessage expired_init_event 1000] selected_client) = [(1, ''Deploy?'', Num 0)]
   \<and> banner_displayed (run [ServerMessage expired_init_event 1000,
                              IntervalFires 1 2000, IntervalFires 1 3000] selected_client)
   \<and> intervals (run [ServerMessage expired_init_event 1000,
                       IntervalFires 1 2000, IntervalFires 1 3000] selected_client)
        = [(1, ''Deploy?'', Num 0)]
   \<and> errors (run [ServerMessage expired_init_event 1000,
                    IntervalFires 1 2000, IntervalFires 1 3000] selected_client)
        = [TypeError, TypeError]"
  by code_simp



end
